theory Spec2Isabelle
  imports Main "HOL-Library.AList" "HOL-Library.Multiset"
begin

section \<open>Errors\<close>

text \<open>
  Every way a call of the property manager can end without a value.
  \<^item> \<open>UnknownType t\<close> is the source's \<^verbatim>\<open>throw new Error(`Type not found: ${type}`)\<close>;
  \<^item> \<open>TypeError\<close> is what the JavaScript runtime raises when a property is read from
    \<^verbatim>\<open>undefined\<close> or \<^verbatim>\<open>null\<close>, or when \<^verbatim>\<open>.map\<close> is called on a value that has none;
  \<^item> \<open>RangeError\<close> is the runtime's "maximum call stack size exceeded";
  \<^item> \<open>UpstreamFailure\<close> is a rejected call of the external record store;
  \<^item> \<open>MissingRoot\<close> and \<open>MalformedHierarchy\<close> are the two remaining names of the
    specification's error taxonomy.
\<close>

datatype error =
    UnknownType nat
  | MissingRoot
  | MalformedHierarchy
  | UpstreamFailure
  | TypeError
  | RangeError


section \<open>Records of the model\<close>

text \<open>
  The values the property manager reads out of a model. A record (\<^verbatim>\<open>JSONObject\<close>, a line
  of the IFC file) has a numeric \<^verbatim>\<open>expressID\<close>, a \<^verbatim>\<open>type\<close> name and its IFC attributes in
  order; attribute names are those of the IFC schema, a name space apart from the three
  JavaScript level names \<^verbatim>\<open>expressID\<close>, \<^verbatim>\<open>type\<close> and \<^verbatim>\<open>value\<close>. An attribute holds
  \<^item> \<open>Null\<close>, the JavaScript \<^verbatim>\<open>null\<close>;
  \<^item> \<open>Num n\<close>, a bare number;
  \<^item> \<open>Tagged t v\<close>, the object \<^verbatim>\<open>{type: t, value: v}\<close> with a numeric payload; it is a
    reference to the record \<open>v\<close> exactly when \<open>t = 5\<close>;
  \<^item> \<open>Arr xs\<close>, an array;
  \<^item> \<open>Item obj\<close>, a record that replaced a reference, and \<open>EmptyItem\<close>, the object
    \<^verbatim>\<open>{}\<close> that \<^verbatim>\<open>{...undefined}\<close> evaluates to.
  Ids are numbers, as the source annotates them (\<^verbatim>\<open>id: number\<close>, \<^verbatim>\<open>IDs: number[]\<close>,
  \<^verbatim>\<open>child: number\<close>); an id position that holds \<^verbatim>\<open>undefined\<close> is \<open>None\<close>.
\<close>

datatype jsval =
    Null
  | Num nat
  | Tagged nat nat
  | Arr "jsval list"
  | Item jsonobject
  | EmptyItem
and jsonobject =
    JSONObject (json_expressID: nat) (json_type: string) (json_attrs: "(string \<times> jsval) list")

text \<open>
  \<^verbatim>\<open>jsonData\<close>, the table \<^verbatim>\<open>{ [id: number]: JSONObject }\<close>, as its entries. The first
  binding of a key is the property. The keys are express ids, which the parser numbers
  below \<open>2^32 - 1\<close>: \<^verbatim>\<open>Object.keys\<close> lists such keys (array indices) in ascending order. A
  larger key would be listed after them, in the order of insertion, which \<open>Object_keys\<close>
  does not model.
\<close>

type_synonym jsonData = "(nat \<times> jsonobject) list"

definition Object_keys :: "jsonData \<Rightarrow> nat list" where
  "Object_keys data = sort (remdups (map fst data))"

text \<open>A relation descriptor \<^verbatim>\<open>pName\<close>, and the table \<^verbatim>\<open>PropsNames\<close> of the five descriptors.\<close>

record pName =
  name :: nat
  relating :: string
  related :: string
  key :: string

record PropsNames =
  aggregates :: pName
  spatial :: pName
  psets :: pName
  typeProps :: pName
  materials :: pName

text \<open>
  The external record store \<^verbatim>\<open>state.api\<close>: a call either resolves or rejects (\<open>None\<close>).
  A \<^verbatim>\<open>Vector\<close> it returns is the list of its elements.
\<close>

record WebIfcAPI =
  GetLineIDsWithType :: "nat \<Rightarrow> nat list option"
  GetLine :: "nat \<Rightarrow> bool \<Rightarrow> jsonobject option"

text \<open>
  \<^verbatim>\<open>IfcState\<close> for one model (\<^verbatim>\<open>state.models[modelID]\<close> with the model id fixed), together
  with the constant tables the class imports: \<^verbatim>\<open>IfcTypesMap\<close>, \<^verbatim>\<open>IfcElements\<close>,
  \<^verbatim>\<open>PropsNames\<close> and the type id \<^verbatim>\<open>IFCPROJECT\<close>.
\<close>

record IfcState =
  useJSON :: bool
  jsonData :: jsonData
  types :: "nat \<Rightarrow> nat option"
  api :: WebIfcAPI
  IfcTypesMap :: "nat \<Rightarrow> string option"
  IfcElements :: "nat \<Rightarrow> string option"
  propsNames :: PropsNames
  IFCPROJECT :: nat

subsection \<open>Reading values\<close>

text \<open>
  \<^verbatim>\<open>x[attr]\<close> for an attribute name: a \<^verbatim>\<open>TypeError\<close> on \<^verbatim>\<open>null\<close>, the attribute's value on
  a record, and \<^verbatim>\<open>undefined\<close> (\<open>None\<close>) on everything else.
\<close>

fun getProp :: "jsval \<Rightarrow> string \<Rightarrow> error + jsval option" where
  "getProp Null a = Inl TypeError"
| "getProp (Item obj) a = Inr (map_of (json_attrs obj) a)"
| "getProp v a = Inr None"

text \<open>
  \<^verbatim>\<open>x.value\<close>, where \<open>None\<close> is \<^verbatim>\<open>undefined\<close>: a \<^verbatim>\<open>TypeError\<close> on \<^verbatim>\<open>undefined\<close> and \<^verbatim>\<open>null\<close>,
  the payload of a tagged value, \<^verbatim>\<open>undefined\<close> on everything else.
\<close>

fun valueOf :: "jsval option \<Rightarrow> error + nat option" where
  "valueOf None = Inl TypeError"
| "valueOf (Some Null) = Inl TypeError"
| "valueOf (Some (Tagged t v)) = Inr (Some v)"
| "valueOf (Some v) = Inr None"

text \<open>Reading a JavaScript array: an index past the end gives \<^verbatim>\<open>undefined\<close>.\<close>

definition at :: "'a list \<Rightarrow> nat \<Rightarrow> 'a option" where
  "at xs i = (if i < length xs then Some (xs ! i) else None)"

text \<open>\<^verbatim>\<open>xs.map(f)\<close> and \<^verbatim>\<open>xs.forEach(f)\<close> with a callback that may throw: the first throw ends the loop.\<close>

fun mapE :: "('a \<Rightarrow> error + 'b) \<Rightarrow> 'a list \<Rightarrow> error + 'b list" where
  "mapE f [] = Inr []"
| "mapE f (x # xs) =
     (case f x of
        Inl e \<Rightarrow> Inl e
      | Inr y \<Rightarrow> (case mapE f xs of Inl e \<Rightarrow> Inl e | Inr ys \<Rightarrow> Inr (y # ys)))"

fun forEachE :: "('s \<Rightarrow> 'a \<Rightarrow> error + 's) \<Rightarrow> 's \<Rightarrow> 'a list \<Rightarrow> error + 's" where
  "forEachE f s [] = Inr s"
| "forEachE f s (x # xs) =
     (case f s x of Inl e \<Rightarrow> Inl e | Inr s' \<Rightarrow> forEachE f s' xs)"

text \<open>\<^verbatim>\<open>s.toUpperCase()\<close> on the ASCII letters that type names are written in.\<close>

definition upperChar :: "char \<Rightarrow> char" where
  "upperChar c =
     (let n = (of_char c :: nat) in if 97 \<le> n \<and> n \<le> 122 then char_of (n - 32) else c)"

definition toUpperCase :: "string \<Rightarrow> string" where
  "toUpperCase s = map upperChar s"

section \<open>All items of a type\<close>

text \<open>
  \<^verbatim>\<open>filterJSONItemsByType\<close>: the keys of the table in \<^verbatim>\<open>Object.keys\<close> order; a record whose
  upper-cased type name is \<open>typeName\<close> contributes its copy (\<open>verbose\<close>) or its key. Every
  key the loop visits is bound, so the lookup cannot miss.
\<close>

definition filterJSONItemsByType :: "jsonData \<Rightarrow> string \<Rightarrow> bool \<Rightarrow> jsval list" where
  "filterJSONItemsByType data typeName verbose =
     concat (map (\<lambda>numKey.
        case map_of data numKey of
          None \<Rightarrow> []
        | Some obj \<Rightarrow>
            if toUpperCase (json_type obj) = typeName
            then [if verbose then Item obj else Num numKey]
            else []) (Object_keys data))"

text \<open>\<^verbatim>\<open>getAllItemsOfTypeJSON\<close>: \<^verbatim>\<open>!typeName\<close> holds for a missing name and for the empty string.\<close>

definition getAllItemsOfTypeJSON :: "IfcState \<Rightarrow> nat \<Rightarrow> bool \<Rightarrow> error + jsval list" where
  "getAllItemsOfTypeJSON state type verbose =
     (case IfcTypesMap state type of
        None \<Rightarrow> Inl (UnknownType type)
      | Some typeName \<Rightarrow>
          if typeName = [] then Inl (UnknownType type)
          else Inr (filterJSONItemsByType (jsonData state) typeName verbose))"

text \<open>
  \<^verbatim>\<open>getAllItemsOfTypeWebIfcAPI\<close>: the ids the store lists for the type, or the line of each
  of them when \<open>verbose\<close>.
\<close>

definition getAllItemsOfTypeWebIfcAPI :: "IfcState \<Rightarrow> nat \<Rightarrow> bool \<Rightarrow> error + jsval list" where
  "getAllItemsOfTypeWebIfcAPI state type verbose =
     (case GetLineIDsWithType (api state) type of
        None \<Rightarrow> Inl UpstreamFailure
      | Some items \<Rightarrow>
          if \<not> verbose then Inr (map Num items)
          else mapE (\<lambda>i. case GetLine (api state) i False of
                            None \<Rightarrow> Inl UpstreamFailure
                          | Some line \<Rightarrow> Inr (Item line)) items)"

definition getAllItemsOfType :: "IfcState \<Rightarrow> nat \<Rightarrow> bool \<Rightarrow> error + jsval list" where
  "getAllItemsOfType state type verbose =
     (if useJSON state then getAllItemsOfTypeJSON state type verbose
      else getAllItemsOfTypeWebIfcAPI state type verbose)"

section \<open>The relation index\<close>

text \<open>
  The chunk map \<^verbatim>\<open>treeChunks\<close>: an object keyed by the relating id. A key that is
  \<^verbatim>\<open>undefined\<close> (the property named "undefined") is \<open>None\<close>.
\<close>

type_synonym chunks = "nat option \<Rightarrow> nat option list option"

text \<open>
  \<^verbatim>\<open>saveChunk\<close>. \<^verbatim>\<open>rel[propNames.related].map(...)\<close> is a call of \<^verbatim>\<open>.map\<close>: on \<^verbatim>\<open>undefined\<close>
  and \<^verbatim>\<open>null\<close> the property read raises, and on any value that is not an array there is
  no such method, which raises as well.
\<close>

definition saveChunk :: "chunks \<Rightarrow> pName \<Rightarrow> jsval \<Rightarrow> error + chunks" where
  "saveChunk chunks propNames rel =
     (case getProp rel (relating propNames) of
        Inl e \<Rightarrow> Inl e
      | Inr relatingField \<Rightarrow>
     (case valueOf relatingField of
        Inl e \<Rightarrow> Inl e
      | Inr relatingId \<Rightarrow>
     (case getProp rel (related propNames) of
        Inl e \<Rightarrow> Inl e
      | Inr (Some (Arr relatedItems)) \<Rightarrow>
          (case mapE (\<lambda>r. valueOf (Some r)) relatedItems of
             Inl e \<Rightarrow> Inl e
           | Inr relatedIds \<Rightarrow>
               (case chunks relatingId of
                  None \<Rightarrow> Inr (chunks(relatingId \<mapsto> relatedIds))
                | Some stored \<Rightarrow> Inr (chunks(relatingId \<mapsto> stored @ relatedIds))))
      | Inr _ \<Rightarrow> Inl TypeError)))"

definition getChunksJSON :: "IfcState \<Rightarrow> chunks \<Rightarrow> pName \<Rightarrow> error + chunks" where
  "getChunksJSON state chunks propNames =
     (case getAllItemsOfTypeJSON state (name propNames) True of
        Inl e \<Rightarrow> Inl e
      | Inr relation \<Rightarrow> forEachE (\<lambda>c rel. saveChunk c propNames rel) chunks relation)"

definition getChunksWebIfcAPI :: "IfcState \<Rightarrow> chunks \<Rightarrow> pName \<Rightarrow> error + chunks" where
  "getChunksWebIfcAPI state chunks propNames =
     (case GetLineIDsWithType (api state) (name propNames) of
        None \<Rightarrow> Inl UpstreamFailure
      | Some relation \<Rightarrow>
          forEachE (\<lambda>c i. case GetLine (api state) i False of
                             None \<Rightarrow> Inl UpstreamFailure
                           | Some rel \<Rightarrow> saveChunk c propNames (Item rel)) chunks relation)"

definition getSpatialTreeChunks :: "IfcState \<Rightarrow> error + chunks" where
  "getSpatialTreeChunks state =
     (if useJSON state then
        (case getChunksJSON state Map.empty (aggregates (propsNames state)) of
           Inl e \<Rightarrow> Inl e
         | Inr treeChunks \<Rightarrow> getChunksJSON state treeChunks (spatial (propsNames state)))
      else
        (case getChunksWebIfcAPI state Map.empty (aggregates (propsNames state)) of
           Inl e \<Rightarrow> Inl e
         | Inr treeChunks \<Rightarrow> getChunksWebIfcAPI state treeChunks (spatial (propsNames state))))"

section \<open>The tree builder\<close>

text \<open>
  A \<^verbatim>\<open>Node\<close>: \<^verbatim>\<open>expressID\<close> (undefined when the root was built from no project record),
  \<^verbatim>\<open>type\<close> (undefined when \<^verbatim>\<open>IfcElements\<close> has no name for the type id) and \<^verbatim>\<open>children\<close>.
  \<open>getChildren\<close> stores the nodes it builds under the property \<^verbatim>\<open>propNames.key\<close>, which it
  casts to a key of \<^verbatim>\<open>Node\<close> holding a node array: \<open>others\<close> keeps what is stored under a
  key that is not \<^verbatim>\<open>children\<close>.
\<close>

datatype Node =
  Node (expressID: "nat option") (type: "string option") (children: "Node list")
       (others: "(string \<times> Node list) list")

definition setProp :: "string \<Rightarrow> Node list \<Rightarrow> Node \<Rightarrow> Node" where
  "setProp k v node =
     (if k = ''children'' then Node (expressID node) (type node) v (others node)
      else Node (expressID node) (type node) (children node) (AList.update k v (others node)))"

definition newIfcProject :: "nat option \<Rightarrow> Node" where
  "newIfcProject nodeId = Node nodeId (Some ''IFCPROJECT'') [] []"

text \<open>
  \<^verbatim>\<open>getNodeType\<close>: with JSON data, \<^verbatim>\<open>jsonData[id].type\<close> raises when the table has no
  record for the id; otherwise \<^verbatim>\<open>IfcElements[types[id]]\<close>, undefined when either lookup misses.
\<close>

definition getNodeType :: "IfcState \<Rightarrow> nat option \<Rightarrow> error + string option" where
  "getNodeType state nodeId =
     (if useJSON state then
        (case nodeId of
           None \<Rightarrow> Inl TypeError
         | Some i \<Rightarrow>
             (case map_of (jsonData state) i of
                None \<Rightarrow> Inl TypeError
              | Some obj \<Rightarrow> Inr (Some (json_type obj))))
      else
        Inr (case nodeId of
               None \<Rightarrow> None
             | Some i \<Rightarrow> (case types state i of None \<Rightarrow> None | Some typeID \<Rightarrow> IfcElements state typeID)))"

definition newNode :: "IfcState \<Rightarrow> nat option \<Rightarrow> error + Node" where
  "newNode state nodeId =
     (case getNodeType state nodeId of
        Inl e \<Rightarrow> Inl e
      | Inr typeName \<Rightarrow> Inr (Node nodeId typeName [] []))"

text \<open>
  \<^verbatim>\<open>getChildren\<close>, with the recursive call \<^verbatim>\<open>this.getSpatialNode\<close> as the parameter
  \<open>recur\<close>. With \<open>includeProperties\<close> the source spreads the result of the asynchronous
  \<^verbatim>\<open>getItemProperties\<close> into the node without awaiting it; a promise has no own enumerable
  property, so the node is the same node.
\<close>

definition getChildren ::
  "(Node \<Rightarrow> error + Node) \<Rightarrow> IfcState \<Rightarrow> Node \<Rightarrow> chunks \<Rightarrow> pName \<Rightarrow> bool \<Rightarrow> error + Node" where
  "getChildren recur state node treeChunks propNames includeProperties =
     (case treeChunks (expressID node) of
        None \<Rightarrow> Inr node
      | Some childIds \<Rightarrow>
          (case mapE (\<lambda>child.
                  case newNode state child of
                    Inl e \<Rightarrow> Inl e
                  | Inr n \<Rightarrow> recur (if includeProperties then n else n)) childIds of
             Inl e \<Rightarrow> Inl e
           | Inr nodes \<Rightarrow> Inr (setProp (key propNames) nodes node)))"

text \<open>
  \<^verbatim>\<open>getSpatialNode\<close>. The first argument is the depth of call stack that is left: the
  recursion has no other bound, and a call that finds the stack exhausted raises
  \<open>RangeError\<close>.
\<close>

primrec getSpatialNode :: "nat \<Rightarrow> IfcState \<Rightarrow> chunks \<Rightarrow> bool \<Rightarrow> Node \<Rightarrow> error + Node" where
  "getSpatialNode 0 state treeChunks includeProperties node = Inl RangeError"
| "getSpatialNode (Suc depth) state treeChunks includeProperties node =
     (case getChildren (getSpatialNode depth state treeChunks includeProperties)
             state node treeChunks (aggregates (propsNames state)) includeProperties of
        Inl e \<Rightarrow> Inl e
      | Inr node' \<Rightarrow>
          getChildren (getSpatialNode depth state treeChunks includeProperties)
            state node' treeChunks (spatial (propsNames state)) includeProperties)"

text \<open>The id at the head of a list of ids: \<^verbatim>\<open>items[0]\<close>, undefined on the empty list.\<close>

fun firstId :: "jsval list \<Rightarrow> nat option" where
  "firstId (Num n # items) = Some n"
| "firstId items = None"

definition getSpatialStructureJSON :: "nat \<Rightarrow> IfcState \<Rightarrow> bool \<Rightarrow> error + Node" where
  "getSpatialStructureJSON depth state includeProperties =
     (case getSpatialTreeChunks state of
        Inl e \<Rightarrow> Inl e
      | Inr chunks \<Rightarrow>
          (case getAllItemsOfTypeJSON state (IFCPROJECT state) False of
             Inl e \<Rightarrow> Inl e
           | Inr items \<Rightarrow>
               getSpatialNode depth state chunks includeProperties (newIfcProject (firstId items))))"

text \<open>\<^verbatim>\<open>allLines.get(0)\<close> on a vector: undefined when the vector is empty.\<close>

definition getSpatialStructureWebIfcAPI :: "nat \<Rightarrow> IfcState \<Rightarrow> bool \<Rightarrow> error + Node" where
  "getSpatialStructureWebIfcAPI depth state includeProperties =
     (case getSpatialTreeChunks state of
        Inl e \<Rightarrow> Inl e
      | Inr chunks \<Rightarrow>
          (case GetLineIDsWithType (api state) (IFCPROJECT state) of
             None \<Rightarrow> Inl UpstreamFailure
           | Some allLines \<Rightarrow>
               getSpatialNode depth state chunks includeProperties (newIfcProject (at allLines 0))))"

definition getSpatialStructure :: "nat \<Rightarrow> IfcState \<Rightarrow> bool \<Rightarrow> error + Node" where
  "getSpatialStructure depth state includeProperties =
     (if useJSON state then getSpatialStructureJSON depth state includeProperties
      else getSpatialStructureWebIfcAPI depth state includeProperties)"

section \<open>The property resolver\<close>

text \<open>\<^verbatim>\<open>{ ...data[id] }\<close>: a copy of the record of the id, and \<^verbatim>\<open>{}\<close> when there is none.\<close>

definition copyOf :: "jsonData \<Rightarrow> nat option \<Rightarrow> jsval" where
  "copyOf data itemId =
     (case itemId of
        None \<Rightarrow> EmptyItem
      | Some i \<Rightarrow> (case map_of data i of None \<Rightarrow> EmptyItem | Some obj \<Rightarrow> Item obj))"

definition getItemsByIDJSON :: "IfcState \<Rightarrow> nat option list \<Rightarrow> jsval list" where
  "getItemsByIDJSON state ids = map (copyOf (jsonData state)) ids"

text \<open>
  \<^verbatim>\<open>getRelated\<close> pushes onto \<open>IDs\<close> the value of the relating field, or the value of each
  of its elements when it is an array.
\<close>

definition getRelated :: "jsval \<Rightarrow> pName \<Rightarrow> nat option list \<Rightarrow> error + nat option list" where
  "getRelated rel propNames IDs =
     (case getProp rel (relating propNames) of
        Inl e \<Rightarrow> Inl e
      | Inr (Some (Arr elements)) \<Rightarrow>
          (case mapE (\<lambda>ele. valueOf (Some ele)) elements of
             Inl e \<Rightarrow> Inl e
           | Inr vs \<Rightarrow> Inr (IDs @ vs))
      | Inr element \<Rightarrow>
          (case valueOf element of
             Inl e \<Rightarrow> Inl e
           | Inr v \<Rightarrow> Inr (IDs @ [v])))"

text \<open>
  \<^verbatim>\<open>isRelated\<close>: the id is among the values of the related field's elements when that
  field is an array, and is the field's value otherwise.
\<close>

definition isRelated :: "nat \<Rightarrow> jsval \<Rightarrow> pName \<Rightarrow> error + bool" where
  "isRelated elementId rel propNames =
     (case getProp rel (related propNames) of
        Inl e \<Rightarrow> Inl e
      | Inr (Some (Arr relatedItems)) \<Rightarrow>
          (case mapE (\<lambda>item. valueOf (Some item)) relatedItems of
             Inl e \<Rightarrow> Inl e
           | Inr values \<Rightarrow> Inr (Some elementId \<in> set values))
      | Inr relatedItems \<Rightarrow>
          (case valueOf relatedItems of
             Inl e \<Rightarrow> Inl e
           | Inr v \<Rightarrow> Inr (v = Some elementId)))"

text \<open>The loop of \<^verbatim>\<open>getAllRelatedItemsOfTypeJSON\<close> over the relation records.\<close>

definition relatedOfLines :: "nat \<Rightarrow> pName \<Rightarrow> jsval list \<Rightarrow> error + nat option list" where
  "relatedOfLines elementId propNames lines =
     forEachE (\<lambda>IDs line.
        case isRelated elementId line propNames of
          Inl e \<Rightarrow> Inl e
        | Inr found \<Rightarrow> if found then getRelated line propNames IDs else Inr IDs) [] lines"

definition getAllRelatedItemsOfTypeJSON :: "IfcState \<Rightarrow> nat \<Rightarrow> pName \<Rightarrow> error + nat option list" where
  "getAllRelatedItemsOfTypeJSON state elementId propNames =
     (case getAllItemsOfTypeJSON state (name propNames) True of
        Inl e \<Rightarrow> Inl e
      | Inr lines \<Rightarrow> relatedOfLines elementId propNames lines)"

text \<open>
  \<^verbatim>\<open>getMultipleJSONItems\<close>, as the new value of the array field: an element that is a
  reference is replaced by a copy of its record, walked by \<open>recur\<close>
  (\<^verbatim>\<open>getJSONReferencesRecursively\<close>); reading \<^verbatim>\<open>.type\<close> of a \<^verbatim>\<open>null\<close> element raises.
\<close>

definition getMultipleJSONItems ::
  "(jsval \<Rightarrow> error + jsval) \<Rightarrow> IfcState \<Rightarrow> jsval list \<Rightarrow> error + jsval" where
  "getMultipleJSONItems recur state items =
     (case mapE (\<lambda>item.
              case item of
                Null \<Rightarrow> Inl TypeError
              | Tagged t v \<Rightarrow> if t = 5 then recur (copyOf (jsonData state) (Some v)) else Inr item
              | _ \<Rightarrow> Inr item) items of
        Inl e \<Rightarrow> Inl e
      | Inr items' \<Rightarrow> Inr (Arr items'))"

text \<open>
  \<^verbatim>\<open>getJSONItem\<close>, as the new value of \<^verbatim>\<open>jsonObject[key]\<close> for the old value \<open>v\<close>: an array
  is mapped, a reference is replaced by a copy of its record
  (\<^verbatim>\<open>getItemsByIDJSON(modelID, [id])[0]\<close>) that is then walked, anything else stays.
\<close>

definition getJSONItem :: "(jsval \<Rightarrow> error + jsval) \<Rightarrow> IfcState \<Rightarrow> jsval \<Rightarrow> error + jsval" where
  "getJSONItem recur state v =
     (case v of
        Arr items \<Rightarrow> getMultipleJSONItems recur state items
      | Tagged t ref \<Rightarrow> if t = 5 then recur (copyOf (jsonData state) (Some ref)) else Inr v
      | _ \<Rightarrow> Inr v)"

text \<open>
  \<^verbatim>\<open>getJSONReferencesRecursively\<close>, as the object after the walk; the first argument is the
  depth of call stack that is left. The keys \<^verbatim>\<open>expressID\<close> and \<^verbatim>\<open>type\<close> of a record hold a
  number and a string, which \<open>getJSONItem\<close> leaves; the keys of an array are its indices;
  a tagged value has two numbers as properties, and \<^verbatim>\<open>{}\<close> and numbers have no keys.
\<close>

primrec getJSONReferencesRecursively :: "nat \<Rightarrow> IfcState \<Rightarrow> jsval \<Rightarrow> error + jsval" where
  "getJSONReferencesRecursively 0 state jsonObject = Inl RangeError"
| "getJSONReferencesRecursively (Suc depth) state jsonObject =
     (case jsonObject of
        Item obj \<Rightarrow>
          (case mapE (\<lambda>kv.
                   case getJSONItem (getJSONReferencesRecursively depth state) state (snd kv) of
                     Inl e \<Rightarrow> Inl e
                   | Inr v' \<Rightarrow> Inr (fst kv, v')) (json_attrs obj) of
             Inl e \<Rightarrow> Inl e
           | Inr attrs' \<Rightarrow> Inr (Item (JSONObject (json_expressID obj) (json_type obj) attrs')))
      | Arr items \<Rightarrow>
          (case mapE (getJSONItem (getJSONReferencesRecursively depth state) state) items of
             Inl e \<Rightarrow> Inl e
           | Inr items' \<Rightarrow> Inr (Arr items'))
      | _ \<Rightarrow> Inr jsonObject)"

definition getPropertyJSON ::
  "nat \<Rightarrow> IfcState \<Rightarrow> nat \<Rightarrow> bool \<Rightarrow> pName \<Rightarrow> error + jsval list" where
  "getPropertyJSON depth state elementID recursive propName =
     (case getAllRelatedItemsOfTypeJSON state elementID propName of
        Inl e \<Rightarrow> Inl e
      | Inr resultIDs \<Rightarrow>
          if recursive
          then mapE (getJSONReferencesRecursively depth state) (getItemsByIDJSON state resultIDs)
          else Inr (getItemsByIDJSON state resultIDs))"

section \<open>Buffer geometries and \<open>getExpressId\<close>\<close>

text \<open>
  A \<^verbatim>\<open>BufferGeometry\<close> as the two classes use it: the optional index buffer
  (\<^verbatim>\<open>geometry.index\<close>, \<open>None\<close> when the geometry has none), the \<^verbatim>\<open>position\<close> and
  \<^verbatim>\<open>normal\<close> attributes (one list entry per vertex, so that \<^verbatim>\<open>position.count\<close> is the
  length), and the attribute stored under \<^verbatim>\<open>IdAttrName\<close> (\<open>None\<close> when it was never set).
\<close>

record 'v BufferGeometry =
  index :: "nat list option"
  position :: "'v list"
  normal :: "'v list"
  idAttr :: "nat list option"

text \<open>
  \<^verbatim>\<open>getExpressId(geometry, faceIndex)\<close>. \<^verbatim>\<open>getX(i)\<close> of a buffer attribute of item size 1
  is \<^verbatim>\<open>array[i]\<close>; with \<^verbatim>\<open>i\<close> undefined it reads \<^verbatim>\<open>array[NaN]\<close>, which is undefined.
  The result \<open>Inr None\<close> is the JavaScript \<^verbatim>\<open>undefined\<close>.
\<close>

definition getExpressId :: "'v BufferGeometry \<Rightarrow> nat \<Rightarrow> error + nat option" where
  "getExpressId geometry faceIndex =
     (case index geometry of
        None \<Rightarrow> Inr None
      | Some geoIndex \<Rightarrow>
          (case idAttr geometry of
             None \<Rightarrow> Inl TypeError
           | Some ids \<Rightarrow>
               Inr (case at geoIndex (3 * faceIndex) of
                      None \<Rightarrow> None
                    | Some i \<Rightarrow> at ids i)))"

section \<open>The geometry parser\<close>

text \<open>
  Numbers of the runtime are kept abstract: the parser only converts them to strings (in the
  template string of the colour key) and compares the alpha component with \<open>1\<close>.
\<close>

record 'n Number =
  toStr :: "'n \<Rightarrow> string"
  one :: 'n

text \<open>\<^verbatim>\<open>Color\<close> of web-ifc, with its components \<^verbatim>\<open>x\<close>, \<^verbatim>\<open>y\<close>, \<^verbatim>\<open>z\<close> and \<^verbatim>\<open>w\<close>.\<close>

datatype 'n ifcColor = IfcColor (colorX: 'n) (colorY: 'n) (colorZ: 'n) (colorW: 'n)

text \<open>The part of a \<^verbatim>\<open>PlacedGeometry\<close> that \<open>saveGeometryByMaterial\<close> reads.\<close>

record 'n PlacedGeometry =
  color :: "'n ifcColor"

text \<open>
  A \<^verbatim>\<open>MeshLambertMaterial\<close>. \<open>materialId\<close> is the identity of the instance: the number that
  the constructor takes from a counter and increments for every object it creates.
\<close>

record 'n Material =
  materialId :: nat
  materialColor :: "'n \<times> 'n \<times> 'n"
  transparent :: bool
  opacity :: 'n

text \<open>An entry of \<^verbatim>\<open>items\<close>: the material of a colour and the geometries of that colour by element id.\<close>

record ('n, 'v) item =
  material :: "'n Material"
  geometries :: "nat \<Rightarrow> 'v BufferGeometry option"

text \<open>
  What the parser keeps of the model it loads: \<^verbatim>\<open>state.models[currentModelID].items\<close>, by
  colour key, and the counter of the materials created so far.
\<close>

record ('n, 'v) IfcModel =
  items :: "string \<Rightarrow> ('n, 'v) item option"
  materialCount :: nat

text \<open>
  Modelled from the spec: the index buffer of a merged batch. \<^verbatim>\<open>merge\<close>, the helper of
  \<^verbatim>\<open>BaseDefinitions\<close> that the parser imports, is not among the sources. The index buffers
  follow one another, each shifted by the number of vertices before it; the batch has an
  index buffer when every geometry has one.
\<close>

fun mergedIndex :: "nat \<Rightarrow> 'v BufferGeometry list \<Rightarrow> nat list option" where
  "mergedIndex offset [] = Some []"
| "mergedIndex offset (g # gs) =
     (case index g of
        None \<Rightarrow> None
      | Some ix \<Rightarrow>
          (case mergedIndex (offset + length (position g)) gs of
             None \<Rightarrow> None
           | Some rest \<Rightarrow> Some (map (\<lambda>i. i + offset) ix @ rest)))"

text \<open>
  Modelled from the spec: the id attribute of a merged batch, the id attributes one after
  the other, when every geometry has one.
\<close>

fun mergedIds :: "'v BufferGeometry list \<Rightarrow> nat list option" where
  "mergedIds [] = Some []"
| "mergedIds (g # gs) =
     (case idAttr g of
        None \<Rightarrow> None
      | Some ids \<Rightarrow> (case mergedIds gs of None \<Rightarrow> None | Some rest \<Rightarrow> Some (ids @ rest)))"

text \<open>
  Modelled from the spec: \<^verbatim>\<open>merge\<close> (not among the sources, see above). Merging geometries
  into one batch loses no data: the attributes of the batch are the attributes of the
  geometries one after the other.
\<close>

definition merge :: "'v BufferGeometry list \<Rightarrow> 'v BufferGeometry" where
  "merge geoms =
     \<lparr>index = mergedIndex 0 geoms,
      position = concat (map position geoms),
      normal = concat (map normal geoms),
      idAttr = mergedIds geoms\<rparr>"

definition colorID :: "'n Number \<Rightarrow> 'n ifcColor \<Rightarrow> string" where
  "colorID num c =
     toStr num (colorX c) @ toStr num (colorY c) @ toStr num (colorZ c) @ toStr num (colorW c)"

text \<open>\<^verbatim>\<open>storeGeometryAttribute\<close>: one copy of the element id for every vertex.\<close>

definition storeGeometryAttribute :: "nat \<Rightarrow> 'v BufferGeometry \<Rightarrow> 'v BufferGeometry" where
  "storeGeometryAttribute elementId geometry =
     geometry\<lparr>idAttr := Some (replicate (length (position geometry)) elementId)\<rparr>"

text \<open>
  \<^verbatim>\<open>createMaterial\<close>: nothing when the colour key has an entry; otherwise a new material
  and an entry without geometries.
\<close>

definition createMaterial ::
  "'n Number \<Rightarrow> ('n, 'v) IfcModel \<Rightarrow> string \<Rightarrow> 'n ifcColor \<Rightarrow> ('n, 'v) IfcModel" where
  "createMaterial num model cid c =
     (case items model cid of
        Some entry \<Rightarrow> model
      | None \<Rightarrow>
          (let newMaterial =
                 \<lparr>materialId = materialCount model,
                  materialColor = (colorX c, colorY c, colorZ c),
                  transparent = (colorW c \<noteq> one num),
                  opacity = (if colorW c \<noteq> one num then colorW c else one num)\<rparr>
           in model\<lparr>items := (items model)(cid \<mapsto> \<lparr>material = newMaterial, geometries = Map.empty\<rparr>),
                    materialCount := Suc (materialCount model)\<rparr>))"

text \<open>
  \<^verbatim>\<open>saveGeometryByMaterial\<close>. Reading \<^verbatim>\<open>item.geometries\<close> would raise if the colour key had
  no entry.
\<close>

definition saveGeometryByMaterial ::
  "'n Number \<Rightarrow> ('n, 'v) IfcModel \<Rightarrow> 'v BufferGeometry \<Rightarrow> 'n PlacedGeometry \<Rightarrow> nat
     \<Rightarrow> error + ('n, 'v) IfcModel" where
  "saveGeometryByMaterial num model geom placedGeom elementId =
     (let c = color placedGeom;
          cid = colorID num c;
          geom' = storeGeometryAttribute elementId geom;
          model' = createMaterial num model cid c
      in case items model' cid of
           None \<Rightarrow> Inl TypeError
         | Some entry \<Rightarrow>
             (case geometries entry elementId of
                None \<Rightarrow>
                  Inr (model'\<lparr>items := (items model')(cid \<mapsto>
                         entry\<lparr>geometries := (geometries entry)(elementId \<mapsto> geom')\<rparr>)\<rparr>)
              | Some currentGeom \<Rightarrow>
                  Inr (model'\<lparr>items := (items model')(cid \<mapsto>
                         entry\<lparr>geometries := (geometries entry)(elementId \<mapsto>
                           merge [currentGeom, geom'])\<rparr>)\<rparr>)))"

text \<open>
  The loop of \<^verbatim>\<open>saveAllPlacedGeometriesByMaterial\<close> over the fragments that the external
  parser delivers: the buffer geometry of each placed geometry, with the id of its element.
\<close>

definition saveAll ::
  "'n Number \<Rightarrow> ('n, 'v) IfcModel \<Rightarrow> ('v BufferGeometry \<times> 'n PlacedGeometry \<times> nat) list
     \<Rightarrow> error + ('n, 'v) IfcModel" where
  "saveAll num model fragments =
     forEachE (\<lambda>m fragment.
        saveGeometryByMaterial num m (fst fragment) (fst (snd fragment)) (snd (snd fragment)))
       model fragments"

text \<open>The model that \<^verbatim>\<open>newIfcModel\<close> registers: no items yet.\<close>

definition newIfcModel :: "nat \<Rightarrow> ('n, 'v) IfcModel" where
  "newIfcModel created = \<lparr>items = Map.empty, materialCount = created\<rparr>"

section \<open>Specification-side notions\<close>

text \<open>
  A relation record as the specification describes it for the relation index: the relating
  field is one reference, to \<open>fst ab\<close>, and the related field is an array of references,
  to the ids \<open>snd ab\<close>.
\<close>

definition isRelation :: "pName \<Rightarrow> jsval \<Rightarrow> nat \<times> nat list \<Rightarrow> bool" where
  "isRelation p rel ab =
     (case rel of
        Item obj \<Rightarrow>
          map_of (json_attrs obj) (relating p) = Some (Tagged 5 (fst ab)) \<and>
          map_of (json_attrs obj) (related p) = Some (Arr (map (Tagged 5) (snd ab)))
      | _ \<Rightarrow> False)"

text \<open>
  The chunk map after the entries \<open>es\<close> (relating id, related ids) were appended to
  \<open>chunks\<close>: the entry of a relating id is what was stored before, followed by the related
  ids of every entry with that relating id, in the order of the entries.
\<close>

definition appended :: "chunks \<Rightarrow> (nat option \<times> nat option list) list \<Rightarrow> chunks" where
  "appended chunks es k =
     (if k \<in> fst ` set es
      then Some ((case chunks k of None \<Rightarrow> [] | Some stored \<Rightarrow> stored) @
                 concat (map (\<lambda>(a, bs). if a = k then bs else []) es))
      else chunks k)"

definition entryOf :: "nat \<times> nat list \<Rightarrow> nat option \<times> nat option list" where
  "entryOf ab = (Some (fst ab), map Some (snd ab))"

text \<open>
  What \<open>saveChunk\<close> reads from a relation record before it touches the chunk map: the
  relating id and the related ids, or the error that a read raises.
\<close>

definition relEntry :: "pName \<Rightarrow> jsval \<Rightarrow> error + nat option \<times> nat option list" where
  "relEntry propNames rel =
     (case getProp rel (relating propNames) of
        Inl e \<Rightarrow> Inl e
      | Inr relatingField \<Rightarrow>
     (case valueOf relatingField of
        Inl e \<Rightarrow> Inl e
      | Inr relatingId \<Rightarrow>
     (case getProp rel (related propNames) of
        Inl e \<Rightarrow> Inl e
      | Inr (Some (Arr relatedItems)) \<Rightarrow>
          (case mapE (\<lambda>r. valueOf (Some r)) relatedItems of
             Inl e \<Rightarrow> Inl e
           | Inr relatedIds \<Rightarrow> Inr (relatingId, relatedIds))
      | Inr _ \<Rightarrow> Inl TypeError)))"


text \<open>
  The id that \<open>getSpatialStructure\<close> builds the root from:
  \<^verbatim>\<open>getAllItemsOfTypeJSON(modelID, IFCPROJECT, false)[0]\<close> with JSON data and
  \<^verbatim>\<open>allLines.get(0)\<close> otherwise.
\<close>

definition projectId :: "IfcState \<Rightarrow> error + nat option" where
  "projectId state =
     (if useJSON state then
        (case getAllItemsOfTypeJSON state (IFCPROJECT state) False of
           Inl e \<Rightarrow> Inl e
         | Inr ids \<Rightarrow> Inr (firstId ids))
      else
        (case GetLineIDsWithType (api state) (IFCPROJECT state) of
           None \<Rightarrow> Inl UpstreamFailure
         | Some allLines \<Rightarrow> Inr (at allLines 0)))"


text \<open>All nodes of a tree, the root first.\<close>

fun nodes :: "Node \<Rightarrow> Node list" where
  "nodes (Node i t cs os) = Node i t cs os # concat (map nodes cs)"

text \<open>The graph of a chunk map: an edge from a relating id to each of its related ids.\<close>

definition edge :: "chunks \<Rightarrow> nat option \<Rightarrow> nat option \<Rightarrow> bool" where
  "edge chunks a b = (case chunks a of None \<Rightarrow> False | Some cs \<Rightarrow> b \<in> set cs)"

text \<open>The errors that the source can raise: every error but the two it has no code for.\<close>

definition raisable :: "error \<Rightarrow> bool" where
  "raisable e = (e \<noteq> MissingRoot \<and> e \<noteq> MalformedHierarchy)"

text \<open>
  A field that refers to the ids \<open>ids\<close>: an array of references to them, or, for one id,
  a single reference.
\<close>

definition refsField :: "jsval option \<Rightarrow> nat list \<Rightarrow> bool" where
  "refsField f ids =
     (f = Some (Arr (map (Tagged 5) ids)) \<or> (case ids of [v] \<Rightarrow> f = Some (Tagged 5 v) | _ \<Rightarrow> False))"

text \<open>
  A relation record as the specification describes it for the property resolver: the
  relating field refers to the ids \<open>fst rd\<close> and the related field to the ids \<open>snd rd\<close>.
\<close>

definition isPropertyRelation :: "pName \<Rightarrow> jsval \<Rightarrow> nat list \<times> nat list \<Rightarrow> bool" where
  "isPropertyRelation p rel rd =
     (case rel of
        Item obj \<Rightarrow>
          refsField (map_of (json_attrs obj) (relating p)) (fst rd) \<and>
          refsField (map_of (json_attrs obj) (related p)) (snd rd)
      | _ \<Rightarrow> False)"

text \<open>The ids that one relation record contributes for an element.\<close>

definition lineIDs :: "nat \<Rightarrow> pName \<Rightarrow> jsval \<Rightarrow> error + nat option list" where
  "lineIDs elementId p line =
     (case isRelated elementId line p of
        Inl e \<Rightarrow> Inl e
      | Inr found \<Rightarrow> if found then getRelated line p [] else Inr [])"

text \<open>
  Values as the parser stores them in the table: null, numbers, tagged values and arrays of
  such values without null elements; no record stands inside a record.
\<close>

fun raw :: "jsval \<Rightarrow> bool" where
  "raw (Arr xs) = list_all (\<lambda>x. x \<noteq> Null \<and> raw x) xs"
| "raw (Item obj) = False"
| "raw EmptyItem = False"
| "raw v = True"

definition rawData :: "jsonData \<Rightarrow> bool" where
  "rawData data = list_all (\<lambda>entry. list_all (\<lambda>kv. raw (snd kv)) (json_attrs (snd entry))) data"

text \<open>
  No reference is left unexpanded: a value is not a reference, and in a record no field is
  a reference, no element of an array field is a reference, and the records that stand in
  fields and in array fields satisfy the same. With \<open>inField\<close> the value is a field of a
  record, whose elements are looked at when it is an array; an array inside an array is not
  looked into, as the walk does not visit it.
\<close>

fun expanded :: "bool \<Rightarrow> jsval \<Rightarrow> bool" where
  "expanded inField (Tagged t v) = (t \<noteq> 5)"
| "expanded inField (Arr xs) = (if inField then list_all (expanded False) xs else True)"
| "expanded inField (Item (JSONObject i t attrs)) = list_all (\<lambda>kv. expanded True (snd kv)) attrs"
| "expanded inField v = True"

text \<open>A field without references: not a reference, and an array without reference or null elements.\<close>

definition plainField :: "jsval \<Rightarrow> bool" where
  "plainField v =
     (case v of
        Tagged t r \<Rightarrow> t \<noteq> 5
      | Arr xs \<Rightarrow> list_all (\<lambda>x. case x of Null \<Rightarrow> False | Tagged t r \<Rightarrow> t \<noteq> 5 | _ \<Rightarrow> True) xs
      | _ \<Rightarrow> True)"

text \<open>
  The ids that the fields of a record refer to, as the walk sees them: a field that is a
  reference, and the references among the elements of a field that is an array.
\<close>

definition fieldRefs :: "jsval \<Rightarrow> nat list" where
  "fieldRefs v =
     (case v of
        Tagged t r \<Rightarrow> if t = 5 then [r] else []
      | Arr xs \<Rightarrow> concat (map (\<lambda>x. case x of Tagged t r \<Rightarrow> if t = 5 then [r] else [] | _ \<Rightarrow> []) xs)
      | _ \<Rightarrow> [])"

text \<open>
  References that descend: every record of the table refers only to ids of a smaller rank,
  so that no chain of references returns to a record.
\<close>

definition ranked :: "(nat \<Rightarrow> nat) \<Rightarrow> jsonData \<Rightarrow> bool" where
  "ranked rank data =
     list_all (\<lambda>entry.
        list_all (\<lambda>kv. list_all (\<lambda>r. rank r < rank (fst entry)) (fieldRefs (snd kv)))
          (json_attrs (snd entry))) data"

text \<open>
  The materials of a model are instances of their own: each was created before the counter
  reached its present value, and two colour keys never hold the same instance.
\<close>

definition cached :: "('n, 'v) IfcModel \<Rightarrow> bool" where
  "cached model =
     ((\<forall>k entry. items model k = Some entry \<longrightarrow> materialId (material entry) < materialCount model)
      \<and> (\<forall>k k' entry entry'. items model k = Some entry \<and> items model k' = Some entry' \<and> k \<noteq> k'
            \<longrightarrow> materialId (material entry) \<noteq> materialId (material entry')))"

text \<open>The colour key of a fragment.\<close>

definition fragmentKey ::
  "'n Number \<Rightarrow> 'v BufferGeometry \<times> 'n PlacedGeometry \<times> nat \<Rightarrow> string" where
  "fragmentKey num fragment = colorID num (color (fst (snd fragment)))"

section \<open>Fixtures\<close>

definition fixtureNames :: PropsNames where
  "fixtureNames =
     \<lparr>aggregates = \<lparr>name = 101, relating = ''RelatingObject'', related = ''RelatedObjects'',
                    key = ''children''\<rparr>,
      spatial = \<lparr>name = 102, relating = ''RelatingStructure'', related = ''RelatedElements'',
                 key = ''children''\<rparr>,
      psets = \<lparr>name = 103, relating = ''RelatingPropertyDefinition'', related = ''RelatedObjects'',
               key = ''hasPsets''\<rparr>,
      typeProps = \<lparr>name = 104, relating = ''RelatingType'', related = ''RelatedObjects'',
                   key = ''hasType''\<rparr>,
      materials = \<lparr>name = 105, relating = ''RelatingMaterial'', related = ''RelatedObjects'',
                   key = ''hasMaterial''\<rparr>\<rparr>"

definition fixtureTypes :: "nat \<Rightarrow> string option" where
  "fixtureTypes = map_of [(100, ''IFCPROJECT''), (101, ''IFCRELAGGREGATES''),
     (102, ''IFCRELCONTAINEDINSPATIALSTRUCTURE''), (103, ''IFCRELDEFINESBYPROPERTIES''),
     (104, ''IFCRELDEFINESBYTYPE''), (105, ''IFCRELASSOCIATESMATERIAL'')]"

definition fixtureApi :: WebIfcAPI where
  "fixtureApi = \<lparr>GetLineIDsWithType = (\<lambda>t. Some [1, 2]), GetLine = (\<lambda>i r. None)\<rparr>"

definition jsonState :: "jsonData \<Rightarrow> IfcState" where
  "jsonState data =
     \<lparr>useJSON = True, jsonData = data, types = Map.empty, api = fixtureApi,
      IfcTypesMap = fixtureTypes, IfcElements = Map.empty, propsNames = fixtureNames,
      IFCPROJECT = 100\<rparr>"

definition apiState :: IfcState where
  "apiState =
     \<lparr>useJSON = False, jsonData = [], types = Map.empty, api = fixtureApi,
      IfcTypesMap = fixtureTypes, IfcElements = Map.empty, propsNames = fixtureNames,
      IFCPROJECT = 100\<rparr>"

text \<open>
  A record store that lists two lines for the type 999, a line and a missing line for the
  type 998, and rejects the request for any other type.
\<close>

definition storeApi :: WebIfcAPI where
  "storeApi =
     \<lparr>GetLineIDsWithType =
        (\<lambda>t. if t = 999 then Some [1, 2] else if t = 998 then Some [1, 3] else None),
      GetLine =
        (\<lambda>i r. if i = 1 then Some (JSONObject 1 ''IfcProject'' [])
               else if i = 2 then Some (JSONObject 2 ''IfcSite'' [])
               else None)\<rparr>"

definition storeState :: IfcState where
  "storeState =
     \<lparr>useJSON = False, jsonData = [], types = Map.empty, api = storeApi,
      IfcTypesMap = fixtureTypes, IfcElements = Map.empty, propsNames = fixtureNames,
      IFCPROJECT = 100\<rparr>"

text \<open>
  A project with two sites, the first of which aggregates a building and a wall and also
  contains that wall spatially.
\<close>

definition doubleData :: jsonData where
  "doubleData =
    [(1, JSONObject 1 ''IfcProject'' []),
     (2, JSONObject 2 ''IfcSite'' []),
     (3, JSONObject 3 ''IfcBuilding'' []),
     (4, JSONObject 4 ''IfcWall'' []),
     (5, JSONObject 5 ''IfcSite'' []),
     (10, JSONObject 10 ''IfcRelAggregates''
        [(''RelatingObject'', Tagged 5 1), (''RelatedObjects'', Arr [Tagged 5 2])]),
     (11, JSONObject 11 ''IfcRelAggregates''
        [(''RelatingObject'', Tagged 5 2), (''RelatedObjects'', Arr [Tagged 5 3, Tagged 5 4])]),
     (12, JSONObject 12 ''IfcRelContainedInSpatialStructure''
        [(''RelatingStructure'', Tagged 5 2), (''RelatedElements'', Arr [Tagged 5 4])]),
     (13, JSONObject 13 ''IfcRelAggregates''
        [(''RelatingObject'', Tagged 5 1), (''RelatedObjects'', Arr [Tagged 5 5])])]"

text \<open>The cycle: the project aggregates a site, and the site aggregates the project.\<close>

definition cycleData :: jsonData where
  "cycleData =
    [(1, JSONObject 1 ''IfcProject'' []),
     (2, JSONObject 2 ''IfcSite'' []),
     (10, JSONObject 10 ''IfcRelAggregates''
        [(''RelatingObject'', Tagged 5 1), (''RelatedObjects'', Arr [Tagged 5 2])]),
     (11, JSONObject 11 ''IfcRelAggregates''
        [(''RelatingObject'', Tagged 5 2), (''RelatedObjects'', Arr [Tagged 5 1])])]"

text \<open>A model without a project record, and one with two of them.\<close>

definition noProjectData :: jsonData where
  "noProjectData =
    [(2, JSONObject 2 ''IfcSite'' []),
     (3, JSONObject 3 ''IfcBuilding'' []),
     (11, JSONObject 11 ''IfcRelAggregates''
        [(''RelatingObject'', Tagged 5 2), (''RelatedObjects'', Arr [Tagged 5 3])])]"

definition twoProjectsData :: jsonData where
  "twoProjectsData =
    [(7, JSONObject 7 ''IfcProject'' []),
     (2, JSONObject 2 ''IfcSite'' []),
     (4, JSONObject 4 ''IfcProject'' []),
     (11, JSONObject 11 ''IfcRelAggregates''
        [(''RelatingObject'', Tagged 5 4), (''RelatedObjects'', Arr [Tagged 5 2])])]"

text \<open>An aggregation whose related field is one reference, not an array.\<close>

definition singleData :: jsonData where
  "singleData =
    [(1, JSONObject 1 ''IfcProject'' []),
     (2, JSONObject 2 ''IfcSite'' []),
     (10, JSONObject 10 ''IfcRelAggregates''
        [(''RelatingObject'', Tagged 5 1), (''RelatedObjects'', Tagged 5 2)])]"

text \<open>
  A wall with two property relations: one to a property set, with an array of related
  objects, and one to two property sets, with the wall as the single related object. The
  first set has a property with a unit.
\<close>

definition psetData :: jsonData where
  "psetData =
    [(3, JSONObject 3 ''IfcBuilding'' []),
     (4, JSONObject 4 ''IfcWall'' [(''Name'', Tagged 1 70)]),
     (20, JSONObject 20 ''IfcPropertySet''
        [(''Name'', Tagged 1 71), (''HasProperties'', Arr [Tagged 5 21, Tagged 5 22])]),
     (21, JSONObject 21 ''IfcPropertySingleValue''
        [(''Name'', Tagged 1 72), (''NominalValue'', Tagged 4 3), (''Unit'', Null)]),
     (22, JSONObject 22 ''IfcPropertySingleValue''
        [(''Name'', Tagged 1 73), (''NominalValue'', Tagged 4 8), (''Unit'', Tagged 5 23)]),
     (23, JSONObject 23 ''IfcSIUnit'' [(''Dimensions'', Arr [Num 1, Num 0])]),
     (24, JSONObject 24 ''IfcPropertySet'' [(''Name'', Tagged 1 74), (''HasProperties'', Arr [])]),
     (30, JSONObject 30 ''IfcRelDefinesByProperties''
        [(''RelatingPropertyDefinition'', Tagged 5 20),
         (''RelatedObjects'', Arr [Tagged 5 3, Tagged 5 4])]),
     (31, JSONObject 31 ''IfcRelDefinesByProperties''
        [(''RelatingPropertyDefinition'', Arr [Tagged 5 24, Tagged 5 20]),
         (''RelatedObjects'', Tagged 5 4)]),
     (32, JSONObject 32 ''IfcRelDefinesByProperties''
        [(''RelatingPropertyDefinition'', Tagged 5 22),
         (''RelatedObjects'', Arr [Tagged 5 3])])]"

text \<open>
  A wall whose type has a representation map with a surface, whose control points are a
  list of lists of references.
\<close>

definition nestedData :: jsonData where
  "nestedData =
    [(4, JSONObject 4 ''IfcWall'' []),
     (34, JSONObject 34 ''IfcRelDefinesByType''
        [(''RelatingType'', Tagged 5 40), (''RelatedObjects'', Arr [Tagged 5 4])]),
     (40, JSONObject 40 ''IfcWallType'' [(''RepresentationMaps'', Arr [Tagged 5 41])]),
     (41, JSONObject 41 ''IfcBSplineSurface''
        [(''ControlPointsList'', Arr [Arr [Tagged 5 42, Tagged 5 43]])]),
     (42, JSONObject 42 ''IfcCartesianPoint'' []),
     (43, JSONObject 43 ''IfcCartesianPoint'' [])]"

text \<open>The property sets of the wall with every reference expanded, and a rank for the table.\<close>

definition psetExpanded :: "jsval list" where
  "psetExpanded =
    [Item (JSONObject 20 ''IfcPropertySet''
       [(''Name'', Tagged 1 71),
        (''HasProperties'',
         Arr [Item (JSONObject 21 ''IfcPropertySingleValue''
                [(''Name'', Tagged 1 72), (''NominalValue'', Tagged 4 3), (''Unit'', Null)]),
              Item (JSONObject 22 ''IfcPropertySingleValue''
                [(''Name'', Tagged 1 73), (''NominalValue'', Tagged 4 8),
                 (''Unit'', Item (JSONObject 23 ''IfcSIUnit''
                                  [(''Dimensions'', Arr [Num 1, Num 0])]))])])]),
     Item (JSONObject 24 ''IfcPropertySet'' [(''Name'', Tagged 1 74), (''HasProperties'', Arr [])]),
     Item (JSONObject 20 ''IfcPropertySet''
       [(''Name'', Tagged 1 71),
        (''HasProperties'',
         Arr [Item (JSONObject 21 ''IfcPropertySingleValue''
                [(''Name'', Tagged 1 72), (''NominalValue'', Tagged 4 3), (''Unit'', Null)]),
              Item (JSONObject 22 ''IfcPropertySingleValue''
                [(''Name'', Tagged 1 73), (''NominalValue'', Tagged 4 8),
                 (''Unit'', Item (JSONObject 23 ''IfcSIUnit''
                                  [(''Dimensions'', Arr [Num 1, Num 0])]))])])])]"

definition psetRank :: "nat \<Rightarrow> nat" where
  "psetRank k = (if k = 20 then 2 else if k = 22 then 1 else if 30 \<le> k then 3 else 0)"

text \<open>
  Numbers 0, 1 and 2 printed as \<^verbatim>\<open>0\<close>, \<^verbatim>\<open>1\<close> and \<^verbatim>\<open>0.5\<close>; a triangle and a quad; an opaque red and a
  half transparent blue.
\<close>

definition unitNumber :: "nat Number" where
  "unitNumber = \<lparr>toStr = (\<lambda>n. if n = 0 then ''0'' else if n = 1 then ''1'' else ''0.5''), one = 1\<rparr>"

definition triangle :: "unit BufferGeometry" where
  "triangle = \<lparr>index = Some [0, 1, 2], position = [(), (), ()], normal = [(), (), ()], idAttr = None\<rparr>"

definition quad :: "unit BufferGeometry" where
  "quad = \<lparr>index = Some [0, 1, 2, 0, 2, 3], position = [(), (), (), ()],
            normal = [(), (), (), ()], idAttr = None\<rparr>"

definition red :: "nat PlacedGeometry" where
  "red = \<lparr>color = IfcColor 1 0 0 1\<rparr>"

definition glass :: "nat PlacedGeometry" where
  "glass = \<lparr>color = IfcColor 0 0 1 2\<rparr>"

section \<open>Theorems\<close>

text \<open>
  C10. A geometry without an index buffer makes \<open>getExpressId\<close> return undefined: no
  error is raised, and the id attribute is not read, since the result is the same whatever
  that attribute holds (also when it is missing, where a read would raise).
\<close>

theorem getExpressId_no_index:
  "index geometry = None \<Longrightarrow>
     getExpressId (geometry\<lparr>idAttr := a\<rparr>) faceIndex = Inr None"
  by (simp add: getExpressId_def)

theorem getExpressId_no_index_witness:
  "index \<lparr>index = None, position = [()], normal = [()], idAttr = Some [7]\<rparr> = None
   \<and> getExpressId (\<lparr>index = None, position = [()], normal = [()], idAttr = Some [7]\<rparr>
                      \<lparr>idAttr := None\<rparr>) 0 = Inr None"
  using getExpressId_no_index
    [of "\<lparr>index = None, position = [()], normal = [()], idAttr = Some [7]\<rparr>" None 0]
  by simp

subsection \<open>The relation index\<close>

lemma mapE_valueOf_refs: "mapE (\<lambda>r. valueOf (Some r)) (map (Tagged t) bs) = Inr (map Some bs)"
  by (induction bs) simp_all

lemma saveChunk_relEntry:
  "saveChunk c p rel =
     (case relEntry p rel of
        Inl e \<Rightarrow> Inl e
      | Inr (a, bs) \<Rightarrow> Inr (c(a \<mapsto> (case c a of None \<Rightarrow> [] | Some stored \<Rightarrow> stored) @ bs)))"
  by (simp add: saveChunk_def relEntry_def
      split: sum.splits option.splits jsval.splits)

lemma relEntry_relation:
  assumes "isRelation p rel ab"
  shows "relEntry p rel = Inr (entryOf ab)"
  using assms
  by (cases rel) (simp_all add: isRelation_def relEntry_def entryOf_def mapE_valueOf_refs)

lemma appended_step:
  "appended (c(a \<mapsto> (case c a of None \<Rightarrow> [] | Some stored \<Rightarrow> stored) @ bs)) es
     = appended c ((a, bs) # es)"
proof (rule ext)
  fix k
  have mem: "\<And>x b. (x, b) \<in> set es \<Longrightarrow> x \<in> fst ` set es" by force
  show "appended (c(a \<mapsto> (case c a of None \<Rightarrow> [] | Some stored \<Rightarrow> stored) @ bs)) es k
     = appended c ((a, bs) # es) k"
    by (auto simp: appended_def dest: mem)
qed

lemma appended_Nil: "appended c [] = c"
  by (rule ext) (simp add: appended_def)

lemma forEachE_appended:
  assumes h: "\<And>c x. h c x =
     (case rd x of
        Inl e \<Rightarrow> Inl e
      | Inr (a, bs) \<Rightarrow> Inr (c(a \<mapsto> (case c a of None \<Rightarrow> [] | Some stored \<Rightarrow> stored) @ bs)))"
  shows "mapE rd xs = Inr es \<Longrightarrow> forEachE h c xs = Inr (appended c es)"
proof (induction xs arbitrary: c es)
  case Nil
  then show ?case by (simp add: appended_Nil)
next
  case (Cons x xs)
  from Cons.prems obtain a bs es' where
    e: "rd x = Inr (a, bs)" and es': "mapE rd xs = Inr es'"
    and es: "es = (a, bs) # es'"
    by (auto split: sum.splits)
  have "h c x = Inr (c(a \<mapsto> (case c a of None \<Rightarrow> [] | Some stored \<Rightarrow> stored) @ bs))"
    by (simp add: h e)
  then show ?case
    by (simp only: forEachE.simps sum.case Cons.IH [OF es'] appended_step es)
qed


lemma mapE_relEntry_relations:
  "list_all2 (isRelation p) rels ps \<Longrightarrow> mapE (relEntry p) rels = Inr (map entryOf ps)"
  by (induction rels ps rule: list_all2_induct) (simp_all add: relEntry_relation)

text \<open>
  C4, as amended. When every relation record of the descriptor's type has one reference as
  its relating field and an array of references as its related field, chunk building raises
  no error and returns the map in which the related ids of each record are appended, in
  record order, to the entry of its relating id (created when absent, so that several
  records contribute to one relating id); with no relation record the empty map stays
  empty.
\<close>

theorem getChunksJSON_appends:
  assumes "getAllItemsOfTypeJSON state (name p) True = Inr rels"
    and "list_all2 (isRelation p) rels ps"
  shows "getChunksJSON state chunks p = Inr (appended chunks (map entryOf ps))
         \<and> (rels = [] \<longrightarrow> getChunksJSON state Map.empty p = Inr Map.empty)"
  using assms
  by (auto simp: getChunksJSON_def
      forEachE_appended [where rd = "relEntry p", OF saveChunk_relEntry mapE_relEntry_relations])

lemma doubleData_aggregates:
  "getAllItemsOfTypeJSON (jsonState doubleData) (name (aggregates fixtureNames)) True =
     Inr [Item (JSONObject 10 ''IfcRelAggregates''
            [(''RelatingObject'', Tagged 5 1), (''RelatedObjects'', Arr [Tagged 5 2])]),
          Item (JSONObject 11 ''IfcRelAggregates''
            [(''RelatingObject'', Tagged 5 2), (''RelatedObjects'', Arr [Tagged 5 3, Tagged 5 4])]),
          Item (JSONObject 13 ''IfcRelAggregates''
            [(''RelatingObject'', Tagged 5 1), (''RelatedObjects'', Arr [Tagged 5 5])])]"
  by code_simp

lemma doubleData_psets:
  "getAllItemsOfTypeJSON (jsonState doubleData) (name (psets fixtureNames)) True = Inr []"
  by code_simp

theorem getChunksJSON_appends_witness:
  "getAllItemsOfTypeJSON (jsonState doubleData) (name (aggregates fixtureNames)) True =
     Inr [Item (JSONObject 10 ''IfcRelAggregates''
            [(''RelatingObject'', Tagged 5 1), (''RelatedObjects'', Arr [Tagged 5 2])]),
          Item (JSONObject 11 ''IfcRelAggregates''
            [(''RelatingObject'', Tagged 5 2), (''RelatedObjects'', Arr [Tagged 5 3, Tagged 5 4])]),
          Item (JSONObject 13 ''IfcRelAggregates''
            [(''RelatingObject'', Tagged 5 1), (''RelatedObjects'', Arr [Tagged 5 5])])]
   \<and> getChunksJSON (jsonState doubleData) Map.empty (aggregates fixtureNames) =
       Inr (appended Map.empty (map entryOf [(1, [2]), (2, [3, 4]), (1, [5])]))
   \<and> appended Map.empty (map entryOf [(1, [2]), (2, [3, 4]), (1, [5])]) (Some 1) =
       Some [Some 2, Some 5]
   \<and> getAllItemsOfTypeJSON (jsonState doubleData) (name (psets fixtureNames)) True = Inr []
   \<and> getChunksJSON (jsonState doubleData) Map.empty (psets fixtureNames) = Inr Map.empty"
proof -
  have rel: "list_all2 (isRelation (aggregates fixtureNames))
       [Item (JSONObject 10 ''IfcRelAggregates''
            [(''RelatingObject'', Tagged 5 1), (''RelatedObjects'', Arr [Tagged 5 2])]),
        Item (JSONObject 11 ''IfcRelAggregates''
            [(''RelatingObject'', Tagged 5 2), (''RelatedObjects'', Arr [Tagged 5 3, Tagged 5 4])]),
        Item (JSONObject 13 ''IfcRelAggregates''
            [(''RelatingObject'', Tagged 5 1), (''RelatedObjects'', Arr [Tagged 5 5])])]
       [(1, [2]), (2, [3, 4]), (1, [5])]"
    by (simp add: isRelation_def fixtureNames_def)
  have val: "appended Map.empty (map entryOf [(1, [2]), (2, [3, 4]), (1, [5])]) (Some 1) =
      Some [Some 2, Some 5]"
    by (simp add: appended_def entryOf_def)
  show ?thesis
    using getChunksJSON_appends [OF doubleData_aggregates rel, of Map.empty]
      getChunksJSON_appends [OF doubleData_psets, of "[]" Map.empty]
      doubleData_aggregates doubleData_psets val
    by (simp add: appended_Nil)
qed

text \<open>
  A relation record whose related field is a single reference makes chunk building raise:
  \<^verbatim>\<open>.map\<close> is called on a value that is not an array.
\<close>

lemma singleData_aggregates:
  "getAllItemsOfTypeJSON (jsonState singleData) (name (aggregates fixtureNames)) True =
     Inr [Item (JSONObject 10 ''IfcRelAggregates''
            [(''RelatingObject'', Tagged 5 1), (''RelatedObjects'', Tagged 5 2)])]"
  by code_simp

theorem getChunksJSON_single_reference_counterexample:
  "getChunksJSON (jsonState singleData) Map.empty (aggregates fixtureNames) = Inl TypeError"
  unfolding getChunksJSON_def singleData_aggregates
  by (simp add: saveChunk_def fixtureNames_def)

subsection \<open>All items of a type\<close>

lemma mapE_lines:
  "list_all2 (\<lambda>i line. f i = Some line) ids lines \<Longrightarrow>
     mapE (\<lambda>i. case f i of None \<Rightarrow> Inl UpstreamFailure | Some line \<Rightarrow> Inr (Item line)) ids =
       Inr (map Item lines)"
  by (induction ids lines rule: list_all2_induct) simp_all

lemma mapE_line_missing:
  "i \<in> set ids \<Longrightarrow> f i = None \<Longrightarrow>
     mapE (\<lambda>i. case f i of None \<Rightarrow> Inl UpstreamFailure | Some line \<Rightarrow> Inr (Item line)) ids =
       Inl UpstreamFailure"
  by (induction ids) (auto split: option.splits sum.splits)

text \<open>
  C7, as amended. A request for all items of a type whose id has no type name (none, or the
  empty name) fails with \<open>UnknownType\<close> in the JSON-backed variant. The incremental-query
  variant consults no type names: its result is independent of the table and is never
  \<open>UnknownType\<close>. It fails with \<open>UpstreamFailure\<close> when the store rejects the request for
  the ids of the type; otherwise it returns the ids that the store lists for the type, in
  the store's order, or, when verbose, the lines of these ids, and \<open>UpstreamFailure\<close> when
  the store rejects the request for one of the lines.
\<close>

theorem getAllItemsOfType_unknown:
  "(IfcTypesMap state t = None \<or> IfcTypesMap state t = Some []
      \<longrightarrow> getAllItemsOfTypeJSON state t verbose = Inl (UnknownType t))
   \<and> getAllItemsOfTypeWebIfcAPI (state\<lparr>IfcTypesMap := m\<rparr>) t verbose =
       getAllItemsOfTypeWebIfcAPI state t verbose
   \<and> getAllItemsOfTypeWebIfcAPI state t verbose \<noteq> Inl (UnknownType u)
   \<and> (GetLineIDsWithType (api state) t = None
        \<longrightarrow> getAllItemsOfTypeWebIfcAPI state t verbose = Inl UpstreamFailure)
   \<and> (GetLineIDsWithType (api state) t = Some ids
        \<longrightarrow> getAllItemsOfTypeWebIfcAPI state t False = Inr (map Num ids))
   \<and> (GetLineIDsWithType (api state) t = Some ids
        \<and> list_all2 (\<lambda>i line. GetLine (api state) i False = Some line) ids lines
        \<longrightarrow> getAllItemsOfTypeWebIfcAPI state t True = Inr (map Item lines))
   \<and> (GetLineIDsWithType (api state) t = Some ids
        \<and> i \<in> set ids \<and> GetLine (api state) i False = None
        \<longrightarrow> getAllItemsOfTypeWebIfcAPI state t True = Inl UpstreamFailure)"
proof -
  have "mapE (\<lambda>i. case GetLine (api state) i False of
                     None \<Rightarrow> Inl UpstreamFailure
                   | Some line \<Rightarrow> Inr (Item line)) elems \<noteq> Inl (UnknownType u)" for elems
    by (induction elems) (auto split: option.splits sum.splits)
  then have a: "(IfcTypesMap state t = None \<or> IfcTypesMap state t = Some []
      \<longrightarrow> getAllItemsOfTypeJSON state t verbose = Inl (UnknownType t))
   \<and> getAllItemsOfTypeWebIfcAPI (state\<lparr>IfcTypesMap := m\<rparr>) t verbose =
       getAllItemsOfTypeWebIfcAPI state t verbose
   \<and> getAllItemsOfTypeWebIfcAPI state t verbose \<noteq> Inl (UnknownType u)"
    by (auto simp: getAllItemsOfTypeJSON_def getAllItemsOfTypeWebIfcAPI_def split: option.splits)
  have b: "getAllItemsOfTypeWebIfcAPI state t verbose = Inl UpstreamFailure"
    if "GetLineIDsWithType (api state) t = None"
    using that by (simp add: getAllItemsOfTypeWebIfcAPI_def)
  have c: "getAllItemsOfTypeWebIfcAPI state t False = Inr (map Num ids)"
    if "GetLineIDsWithType (api state) t = Some ids"
    using that by (simp add: getAllItemsOfTypeWebIfcAPI_def)
  have d: "getAllItemsOfTypeWebIfcAPI state t True = Inr (map Item lines)"
    if "GetLineIDsWithType (api state) t = Some ids"
      and "list_all2 (\<lambda>i line. GetLine (api state) i False = Some line) ids lines"
    using that(1) mapE_lines [where f = "\<lambda>i. GetLine (api state) i False", OF that(2)]
    by (simp add: getAllItemsOfTypeWebIfcAPI_def)
  have e: "getAllItemsOfTypeWebIfcAPI state t True = Inl UpstreamFailure"
    if "GetLineIDsWithType (api state) t = Some ids" "i \<in> set ids"
      "GetLine (api state) i False = None"
    using that(1) mapE_line_missing [where f = "\<lambda>i. GetLine (api state) i False", OF that(2,3)]
    by (simp add: getAllItemsOfTypeWebIfcAPI_def)
  from a b c d e show ?thesis by blast
qed

theorem getAllItemsOfType_unknown_witness:
  "IfcTypesMap (jsonState doubleData) 999 = None
   \<and> getAllItemsOfTypeJSON (jsonState doubleData) 999 True = Inl (UnknownType 999)
   \<and> GetLineIDsWithType (api storeState) 5 = None
   \<and> getAllItemsOfTypeWebIfcAPI storeState 5 False = Inl UpstreamFailure
   \<and> GetLineIDsWithType (api storeState) 999 = Some [1, 2]
   \<and> getAllItemsOfTypeWebIfcAPI storeState 999 False = Inr [Num 1, Num 2]
   \<and> list_all2 (\<lambda>i line. GetLine (api storeState) i False = Some line) [1, 2]
        [JSONObject 1 ''IfcProject'' [], JSONObject 2 ''IfcSite'' []]
   \<and> getAllItemsOfTypeWebIfcAPI storeState 999 True =
        Inr [Item (JSONObject 1 ''IfcProject'' []), Item (JSONObject 2 ''IfcSite'' [])]
   \<and> GetLineIDsWithType (api storeState) 998 = Some [1, 3]
   \<and> GetLine (api storeState) 3 False = None
   \<and> getAllItemsOfTypeWebIfcAPI storeState 998 True = Inl UpstreamFailure"
proof -
  have h: "IfcTypesMap (jsonState doubleData) 999 = None"
    by (simp add: jsonState_def fixtureTypes_def)
  have n: "GetLineIDsWithType (api storeState) 5 = None"
    and s: "GetLineIDsWithType (api storeState) 999 = Some [1, 2]"
    and l: "list_all2 (\<lambda>i line. GetLine (api storeState) i False = Some line) [1, 2]
        [JSONObject 1 ''IfcProject'' [], JSONObject 2 ''IfcSite'' []]"
    and p: "GetLineIDsWithType (api storeState) 998 = Some [1, 3]"
    and g: "GetLine (api storeState) 3 False = None"
    by (simp_all add: storeState_def storeApi_def)
  have m: "(3 :: nat) \<in> set [1, 3]" by simp
  from getAllItemsOfType_unknown [of "jsonState doubleData" 999 True] h
  have 1: "getAllItemsOfTypeJSON (jsonState doubleData) 999 True = Inl (UnknownType 999)"
    by blast
  from getAllItemsOfType_unknown [of storeState 5 False] n
  have 2: "getAllItemsOfTypeWebIfcAPI storeState 5 False = Inl UpstreamFailure"
    by blast
  from getAllItemsOfType_unknown
    [of storeState 999 _ _ _ "[1, 2]" "[JSONObject 1 ''IfcProject'' [], JSONObject 2 ''IfcSite'' []]"]
    s l
  have 3: "getAllItemsOfTypeWebIfcAPI storeState 999 False = Inr (map Num [1, 2])"
    and 4: "getAllItemsOfTypeWebIfcAPI storeState 999 True =
        Inr (map Item [JSONObject 1 ''IfcProject'' [], JSONObject 2 ''IfcSite'' []])"
    by blast+
  from getAllItemsOfType_unknown [of storeState 998 _ _ _ "[1, 3]" _ 3] p m g
  have 5: "getAllItemsOfTypeWebIfcAPI storeState 998 True = Inl UpstreamFailure"
    by blast
  from h n s l p g 1 2 3 4 5 show ?thesis by simp
qed

text \<open>
  The incremental-query variant answers a request for a type without a type name.
\<close>

theorem getAllItemsOfType_api_counterexample:
  "useJSON apiState = False \<and> IfcTypesMap apiState 999 = None
   \<and> getAllItemsOfType apiState 999 False = Inr [Num 1, Num 2]"
  by (simp add: apiState_def fixtureTypes_def fixtureApi_def getAllItemsOfType_def
      getAllItemsOfTypeWebIfcAPI_def)

subsection \<open>The tree builder\<close>

lemma setProp_expressID [simp]: "expressID (setProp k v n) = expressID n"
  by (simp add: setProp_def)

lemma setProp_children [simp]: "children (setProp ''children'' v n) = v"
  by (simp add: setProp_def)



lemma mapE_Inl_mem:
  "x \<in> set xs \<Longrightarrow> isl (f x) \<Longrightarrow> isl (mapE f xs)"
  by (induction xs) (auto split: sum.splits)

lemma mapE_Inl_cases:
  "mapE f xs = Inl e \<Longrightarrow> \<exists>x \<in> set xs. f x = Inl e"
  by (induction xs) (auto split: sum.splits)

lemma forEachE_Inl_cases:
  "forEachE f s xs = Inl e \<Longrightarrow> \<exists>s' x. x \<in> set xs \<and> f s' x = Inl e"
  by (induction xs arbitrary: s) (force split: sum.splits)+

lemma newNode_Inr:
  "newNode st c = Inr n \<Longrightarrow> expressID n = c \<and> children n = [] \<and> others n = []"
  by (auto simp: newNode_def split: sum.splits)

lemma getChildren_expressID:
  "getChildren recur st node chunks p incl = Inr t \<Longrightarrow> expressID t = expressID node"
  by (auto simp: getChildren_def split: option.splits sum.splits)

lemma getSpatialNode_expressID:
  "getSpatialNode d st chunks incl node = Inr t \<Longrightarrow> expressID t = expressID node"
  by (cases d) (auto split: sum.splits dest!: getChildren_expressID)



subsection \<open>Errors\<close>

lemma valueOf_Inl: "valueOf v = Inl e \<Longrightarrow> e = TypeError"
  by (cases v rule: valueOf.cases) simp_all

lemma getProp_Inl: "getProp v a = Inl e \<Longrightarrow> e = TypeError"
  by (cases v) simp_all

lemma relEntry_Inl: "relEntry p rel = Inl e \<Longrightarrow> e = TypeError"
  by (auto simp: relEntry_def split: sum.splits option.splits jsval.splits
      dest!: valueOf_Inl getProp_Inl mapE_Inl_cases)

lemma saveChunk_Inl: "saveChunk c p rel = Inl e \<Longrightarrow> e = TypeError"
  by (auto simp: saveChunk_relEntry split: sum.splits dest: relEntry_Inl)

lemma getAllItemsOfTypeJSON_Inl:
  "getAllItemsOfTypeJSON st t v = Inl e \<Longrightarrow> e = UnknownType t"
  by (auto simp: getAllItemsOfTypeJSON_def split: option.splits if_splits)

lemma getAllItemsOfTypeWebIfcAPI_Inl:
  "getAllItemsOfTypeWebIfcAPI st t v = Inl e \<Longrightarrow> e = UpstreamFailure"
  by (auto simp: getAllItemsOfTypeWebIfcAPI_def split: option.splits if_splits
      dest!: mapE_Inl_cases)

lemma getChunksJSON_Inl:
  "getChunksJSON st c p = Inl e \<Longrightarrow> raisable e"
  by (auto simp: getChunksJSON_def raisable_def split: sum.splits
      dest!: getAllItemsOfTypeJSON_Inl forEachE_Inl_cases saveChunk_Inl)

lemma getChunksWebIfcAPI_Inl:
  "getChunksWebIfcAPI st c p = Inl e \<Longrightarrow> raisable e"
  by (auto simp: getChunksWebIfcAPI_def raisable_def split: option.splits
      dest!: forEachE_Inl_cases saveChunk_Inl)

lemma getSpatialTreeChunks_Inl:
  "getSpatialTreeChunks st = Inl e \<Longrightarrow> raisable e"
  by (auto simp: getSpatialTreeChunks_def split: if_splits sum.splits
      dest: getChunksJSON_Inl getChunksWebIfcAPI_Inl)

lemma newNode_Inl: "newNode st c = Inl e \<Longrightarrow> e = TypeError"
  by (auto simp: newNode_def getNodeType_def split: sum.splits if_splits option.splits)

lemma getSpatialNode_Inl:
  "getSpatialNode d st chunks incl node = Inl e \<Longrightarrow> e = TypeError \<or> e = RangeError"
proof (induction d arbitrary: node e)
  case 0
  then show ?case by simp
next
  case (Suc d)
  have gc: "\<And>p nd e'. getChildren (getSpatialNode d st chunks incl) st nd chunks p incl = Inl e'
               \<Longrightarrow> e' = TypeError \<or> e' = RangeError"
    by (auto simp: getChildren_def split: option.splits sum.splits
        dest!: mapE_Inl_cases newNode_Inl Suc.IH)
  from Suc.prems show ?case
    by (auto split: sum.splits dest: gc)
qed

lemma getSpatialStructure_Inl:
  "getSpatialStructure d st incl = Inl e \<Longrightarrow> raisable e"
  by (auto simp: getSpatialStructure_def getSpatialStructureJSON_def
      getSpatialStructureWebIfcAPI_def raisable_def
      split: if_splits sum.splits option.splits
      dest!: getSpatialTreeChunks_Inl getAllItemsOfTypeJSON_Inl getSpatialNode_Inl)

subsection \<open>Cycles\<close>

lemma getSpatialNode_edge_stuck:
  assumes e: "edge chunks x y"
    and y: "\<And>n. expressID n = y \<Longrightarrow> isl (getSpatialNode d st chunks incl n)"
    and x: "expressID node = x"
  shows "isl (getSpatialNode (Suc d) st chunks incl node)"
proof -
  let ?f = "\<lambda>child. case newNode st child of
                       Inl e \<Rightarrow> Inl e
                     | Inr m \<Rightarrow> getSpatialNode d st chunks incl (if incl then m else m)"
  from e obtain cs where cs: "chunks x = Some cs" and mem: "y \<in> set cs"
    by (auto simp: edge_def split: option.splits)
  have "isl (?f y)"
  proof (cases "newNode st y")
    case (Inl e)
    then show ?thesis by simp
  next
    case (Inr m)
    from newNode_Inr [OF Inr] have "expressID m = y" by simp
    from y [OF this] show ?thesis by (simp add: Inr)
  qed
  with mem have "isl (mapE ?f cs)" by (rule mapE_Inl_mem)
  then show ?thesis
    using cs x by (auto simp: getChildren_def isl_def split: sum.splits)
qed

lemma getSpatialNode_cycle:
  "tranclp (edge chunks) a a \<Longrightarrow> expressID node = a \<Longrightarrow>
     isl (getSpatialNode d st chunks incl node)"
proof (induction d arbitrary: a node)
  case 0
  then show ?case by simp
next
  case (Suc d)
  from Suc.prems(1) obtain b where ab: "edge chunks a b" and ba: "rtranclp (edge chunks) b a"
    by (auto dest: tranclpD)
  from ba ab have "tranclp (edge chunks) b b"
    by (rule rtranclp_into_tranclp1)
  then have "\<And>n. expressID n = b \<Longrightarrow> isl (getSpatialNode d st chunks incl n)"
    by (rule Suc.IH)
  with ab show ?case using Suc.prems(2) by (rule getSpatialNode_edge_stuck)
qed

lemma getSpatialNode_reaches_cycle:
  "rtranclp (edge chunks) r a \<Longrightarrow> tranclp (edge chunks) a a \<Longrightarrow> expressID node = r \<Longrightarrow>
     isl (getSpatialNode d st chunks incl node)"
proof (induction arbitrary: node d rule: converse_rtranclp_induct)
  case base
  then show ?case by (rule getSpatialNode_cycle)
next
  case (step x y)
  show ?case
  proof (cases d)
    case 0
    then show ?thesis by simp
  next
    case (Suc d')
    have "\<And>n. expressID n = y \<Longrightarrow> isl (getSpatialNode d' st chunks incl n)"
      using step.IH [OF step.prems(1)] by blast
    with step.hyps(1) show ?thesis
      unfolding Suc using step.prems(2) by (rule getSpatialNode_edge_stuck)
  qed
qed

subsection \<open>Children of a node\<close>






lemma getSpatialStructure_unfold:
  "getSpatialStructure d st incl =
     (case getSpatialTreeChunks st of
        Inl e \<Rightarrow> Inl e
      | Inr chunks \<Rightarrow>
          (case projectId st of
             Inl e \<Rightarrow> Inl e
           | Inr r \<Rightarrow> getSpatialNode d st chunks incl (newIfcProject r)))"
  by (simp add: getSpatialStructure_def getSpatialStructureJSON_def
      getSpatialStructureWebIfcAPI_def projectId_def split: sum.splits option.splits)



lemma getChunksJSON_relations:
  assumes "getAllItemsOfTypeJSON state (name p) True = Inr rels"
    and "list_all2 (isRelation p) rels ps"
  shows "getChunksJSON state chunks p = Inr (appended chunks (map entryOf ps))"
  using assms
  by (simp add: getChunksJSON_def
      forEachE_appended [where rd = "relEntry p", OF saveChunk_relEntry mapE_relEntry_relations])





subsection \<open>Cycles in the relation data\<close>

text \<open>
  C2, as amended. When the graph of the chunk map has a cycle that can be reached from the
  id of the root, \<open>getSpatialStructure\<close> returns no tree, whatever depth of call stack it
  is given: the recursion has no visited-node guard and ends in the runtime's \<open>RangeError\<close>
  (or in the \<open>TypeError\<close> of a missing record on the way), never in a
  \<open>MalformedHierarchy\<close> error.
\<close>

theorem getSpatialStructure_cycle:
  assumes "getSpatialTreeChunks state = Inr chunks"
    and "projectId state = Inr r"
    and "rtranclp (edge chunks) r a"
    and "tranclp (edge chunks) a a"
  shows "\<exists>e. getSpatialStructure depth state includeProperties = Inl e
              \<and> (e = TypeError \<or> e = RangeError)"
proof -
  have "isl (getSpatialNode depth state chunks includeProperties (newIfcProject r))"
    using assms(3,4) by (rule getSpatialNode_reaches_cycle) (simp add: newIfcProject_def)
  then obtain e where
    e: "getSpatialNode depth state chunks includeProperties (newIfcProject r) = Inl e"
    by (auto simp: isl_def)
  from getSpatialNode_Inl [OF e] e show ?thesis
    by (simp add: getSpatialStructure_unfold assms(1,2))
qed

lemma cycleData_aggregates:
  "getAllItemsOfTypeJSON (jsonState cycleData) (name (aggregates fixtureNames)) True =
     Inr [Item (JSONObject 10 ''IfcRelAggregates''
            [(''RelatingObject'', Tagged 5 1), (''RelatedObjects'', Arr [Tagged 5 2])]),
          Item (JSONObject 11 ''IfcRelAggregates''
            [(''RelatingObject'', Tagged 5 2), (''RelatedObjects'', Arr [Tagged 5 1])])]"
  by code_simp

lemma cycleData_spatial:
  "getAllItemsOfTypeJSON (jsonState cycleData) (name (spatial fixtureNames)) True = Inr []"
  by code_simp

lemma cycleData_chunks:
  "getSpatialTreeChunks (jsonState cycleData) =
     Inr (appended Map.empty (map entryOf [(1, [2]), (2, [1])]))"
proof -
  have p: "aggregates (propsNames (jsonState cycleData)) = aggregates fixtureNames"
      "spatial (propsNames (jsonState cycleData)) = spatial fixtureNames"
    and u: "useJSON (jsonState cycleData)"
    by (simp_all add: jsonState_def)
  have a: "getChunksJSON (jsonState cycleData) Map.empty (aggregates fixtureNames) =
      Inr (appended Map.empty (map entryOf [(1, [2]), (2, [1])]))"
    by (rule getChunksJSON_relations [OF cycleData_aggregates])
       (simp add: isRelation_def fixtureNames_def)
  have s: "getChunksJSON (jsonState cycleData) c (spatial fixtureNames) = Inr c" for c
    using getChunksJSON_relations [OF cycleData_spatial, of "[]" c]
    by (simp add: appended_Nil)
  show ?thesis
    unfolding getSpatialTreeChunks_def p using u by (simp add: a s)
qed

lemma cycleData_project: "projectId (jsonState cycleData) = Inr (Some 1)"
  by code_simp

theorem getSpatialStructure_cycle_witness:
  "getSpatialTreeChunks (jsonState cycleData) =
     Inr (appended Map.empty (map entryOf [(1, [2]), (2, [1])]))
   \<and> projectId (jsonState cycleData) = Inr (Some 1)
   \<and> rtranclp (edge (appended Map.empty (map entryOf [(1, [2]), (2, [1])]))) (Some 1) (Some 1)
   \<and> tranclp (edge (appended Map.empty (map entryOf [(1, [2]), (2, [1])]))) (Some 1) (Some 1)
   \<and> (\<exists>e. getSpatialStructure 1000 (jsonState cycleData) False = Inl e
           \<and> (e = TypeError \<or> e = RangeError))"
proof -
  let ?c = "appended Map.empty (map entryOf [(1, [2]), (2, [1])])"
  have e12: "edge ?c (Some 1) (Some 2)" and e21: "edge ?c (Some 2) (Some 1)"
    by (simp_all add: edge_def appended_def entryOf_def)
  have cyc: "tranclp (edge ?c) (Some 1) (Some 1)"
    using e12 e21 by (rule tranclp.intros(2) [OF tranclp.intros(1)])
  have reach: "rtranclp (edge ?c) (Some 1) (Some 1)" by simp
  show ?thesis
    using getSpatialStructure_cycle [OF cycleData_chunks cycleData_project reach cyc, of 1000 False]
      cycleData_chunks cycleData_project reach cyc
    by simp
qed

text \<open>
  The cycle fixture (the project aggregates a site that aggregates the project) exhausts the
  call stack.
\<close>

theorem getSpatialStructure_cycle_counterexample:
  "getSpatialStructure 6 (jsonState cycleData) False = Inl RangeError"
  by code_simp

subsection \<open>The root\<close>

text \<open>
  C3, as amended. \<open>getSpatialStructure\<close> never fails with \<open>MissingRoot\<close>. The root of the
  tree it returns carries the project id it read, which is the first id of the project type
  in record order (ascending keys of the JSON table, the order of the store's vector
  otherwise) when there are several; when there is none the id is undefined, and, no chunk
  being keyed by undefined, the result is a root with an undefined id and no children.
\<close>

theorem getSpatialStructure_root:
  "getSpatialStructure depth state includeProperties \<noteq> Inl MissingRoot
   \<and> (getSpatialStructure depth state includeProperties = Inr root \<and> projectId state = Inr r
        \<longrightarrow> expressID root = r)
   \<and> (useJSON state \<and> getAllItemsOfTypeJSON state (IFCPROJECT state) False = Inr (Num p # rest)
        \<longrightarrow> projectId state = Inr (Some p))
   \<and> (\<not> useJSON state \<and> GetLineIDsWithType (api state) (IFCPROJECT state) = Some (q # lines)
        \<longrightarrow> projectId state = Inr (Some q))
   \<and> (getSpatialTreeChunks state = Inr chunks \<and> chunks None = None \<and> projectId state = Inr None
        \<longrightarrow> getSpatialStructure (Suc depth) state includeProperties = Inr (newIfcProject None))"
proof -
  have a: "getSpatialStructure depth state includeProperties \<noteq> Inl MissingRoot"
    using getSpatialStructure_Inl [of depth state includeProperties MissingRoot]
    by (auto simp: raisable_def)
  have b: "expressID root = r"
    if "getSpatialStructure depth state includeProperties = Inr root" "projectId state = Inr r"
    using that
    by (auto simp: getSpatialStructure_unfold newIfcProject_def split: sum.splits
        dest!: getSpatialNode_expressID)
  have c: "getSpatialStructure (Suc depth) state includeProperties = Inr (newIfcProject None)"
    if "getSpatialTreeChunks state = Inr chunks" "chunks None = None" "projectId state = Inr None"
    using that
    by (simp add: getSpatialStructure_unfold newIfcProject_def getChildren_def)
  show ?thesis
    using a b c by (auto simp: projectId_def at_def)
qed

lemma filterJSONItemsByType_ids:
  "filterJSONItemsByType data typeName False =
     map Num (filter (\<lambda>k. case map_of data k of
                             None \<Rightarrow> False
                           | Some obj \<Rightarrow> toUpperCase (json_type obj) = typeName)
                (Object_keys data))"
proof -
  have "concat (map (\<lambda>numKey.
        case map_of data numKey of
          None \<Rightarrow> []
        | Some obj \<Rightarrow>
            if toUpperCase (json_type obj) = typeName
            then [if False then Item obj else Num numKey]
            else []) ks) =
     map Num (filter (\<lambda>k. case map_of data k of
                             None \<Rightarrow> False
                           | Some obj \<Rightarrow> toUpperCase (json_type obj) = typeName) ks)" for ks
    by (induction ks) (auto split: option.splits)
  then show ?thesis by (simp add: filterJSONItemsByType_def)
qed


lemma twoProjectsData_ids:
  "getAllItemsOfTypeJSON (jsonState twoProjectsData) (IFCPROJECT (jsonState twoProjectsData)) False =
     Inr [Num 4, Num 7]"
  by code_simp

lemma twoProjectsData_tree:
  "getSpatialStructure 2 (jsonState twoProjectsData) False =
     Inr (Node (Some 4) (Some ''IFCPROJECT'') [Node (Some 2) (Some ''IfcSite'') [] []] [])"
  by code_simp

lemma noProjectData_aggregates:
  "getAllItemsOfTypeJSON (jsonState noProjectData) (name (aggregates fixtureNames)) True =
     Inr [Item (JSONObject 11 ''IfcRelAggregates''
            [(''RelatingObject'', Tagged 5 2), (''RelatedObjects'', Arr [Tagged 5 3])])]"
  by code_simp

lemma noProjectData_spatial:
  "getAllItemsOfTypeJSON (jsonState noProjectData) (name (spatial fixtureNames)) True = Inr []"
  by code_simp

lemma noProjectData_chunks:
  "getSpatialTreeChunks (jsonState noProjectData) =
     Inr (appended Map.empty (map entryOf [(2, [3])]))"
proof -
  have p: "aggregates (propsNames (jsonState noProjectData)) = aggregates fixtureNames"
      "spatial (propsNames (jsonState noProjectData)) = spatial fixtureNames"
    and u: "useJSON (jsonState noProjectData)"
    by (simp_all add: jsonState_def)
  have a: "getChunksJSON (jsonState noProjectData) Map.empty (aggregates fixtureNames) =
      Inr (appended Map.empty (map entryOf [(2, [3])]))"
    by (rule getChunksJSON_relations [OF noProjectData_aggregates])
       (simp add: isRelation_def fixtureNames_def)
  have s: "getChunksJSON (jsonState noProjectData) c (spatial fixtureNames) = Inr c" for c
    using getChunksJSON_relations [OF noProjectData_spatial, of "[]" c]
    by (simp add: appended_Nil)
  show ?thesis
    unfolding getSpatialTreeChunks_def p using u by (simp add: a s)
qed

lemma noProjectData_project: "projectId (jsonState noProjectData) = Inr None"
  by code_simp

theorem getSpatialStructure_root_witness:
  "getSpatialStructure 2 (jsonState twoProjectsData) False =
     Inr (Node (Some 4) (Some ''IFCPROJECT'') [Node (Some 2) (Some ''IfcSite'') [] []] [])
   \<and> useJSON (jsonState twoProjectsData)
   \<and> getAllItemsOfTypeJSON (jsonState twoProjectsData)
        (IFCPROJECT (jsonState twoProjectsData)) False = Inr [Num 4, Num 7]
   \<and> projectId (jsonState twoProjectsData) = Inr (Some 4)
   \<and> \<not> useJSON apiState
   \<and> GetLineIDsWithType (api apiState) (IFCPROJECT apiState) = Some [1, 2]
   \<and> projectId apiState = Inr (Some 1)
   \<and> getSpatialTreeChunks (jsonState noProjectData) =
       Inr (appended Map.empty (map entryOf [(2, [3])]))
   \<and> appended Map.empty (map entryOf [(2, [3])]) None = None
   \<and> projectId (jsonState noProjectData) = Inr None
   \<and> getSpatialStructure (Suc 0) (jsonState noProjectData) False = Inr (newIfcProject None)"
proof -
  have u: "useJSON (jsonState twoProjectsData)" by (simp add: jsonState_def)
  have n: "\<not> useJSON apiState"
    and l: "GetLineIDsWithType (api apiState) (IFCPROJECT apiState) = Some [1, 2]"
    by (simp_all add: apiState_def fixtureApi_def)
  have c: "appended Map.empty (map entryOf [(2, [3])]) None = None"
    by (simp add: appended_def entryOf_def)
  have p4: "projectId (jsonState twoProjectsData) = Inr (Some 4)"
    using getSpatialStructure_root
      [of 2 "jsonState twoProjectsData" False _ _ 4 "[Num 7]"] u twoProjectsData_ids
    by simp
  have p1: "projectId apiState = Inr (Some 1)"
    using getSpatialStructure_root [of 2 apiState False _ _ _ _ 1 "[2]"] n l
    by simp
  have e: "getSpatialStructure (Suc 0) (jsonState noProjectData) False = Inr (newIfcProject None)"
    using getSpatialStructure_root
      [of 0 "jsonState noProjectData" False _ _ _ _ _ _
        "appended Map.empty (map entryOf [(2, [3])])"]
      noProjectData_chunks c noProjectData_project
    by simp
  have r: "expressID (Node (Some 4) (Some ''IFCPROJECT'')
             [Node (Some 2) (Some ''IfcSite'') [] []] []) = Some 4"
    using getSpatialStructure_root
      [of 2 "jsonState twoProjectsData" False
        "Node (Some 4) (Some ''IFCPROJECT'') [Node (Some 2) (Some ''IfcSite'') [] []] []" "Some 4"]
      twoProjectsData_tree p4
    by simp
  show ?thesis
    using twoProjectsData_tree u twoProjectsData_ids p4 n l p1 noProjectData_chunks c
      noProjectData_project e
    by simp
qed

text \<open>A model without a project record gets a tree, not an error.\<close>

theorem getSpatialStructure_no_project_counterexample:
  "getAllItemsOfType (jsonState noProjectData) (IFCPROJECT (jsonState noProjectData)) False = Inr []
   \<and> getSpatialStructure 3 (jsonState noProjectData) False =
        Inr (Node None (Some ''IFCPROJECT'') [] [])"
  by code_simp

subsection \<open>The property resolver\<close>

lemma getRelated_append:
  "getRelated rel p IDs =
     (case getRelated rel p [] of Inl e \<Rightarrow> Inl e | Inr vs \<Rightarrow> Inr (IDs @ vs))"
  by (simp add: getRelated_def split: sum.splits option.splits jsval.splits)

lemma step_lineIDs:
  "(case isRelated elementId line p of
      Inl e \<Rightarrow> Inl e
    | Inr found \<Rightarrow> if found then getRelated line p IDs else Inr IDs) =
   (case lineIDs elementId p line of Inl e \<Rightarrow> Inl e | Inr vs \<Rightarrow> Inr (IDs @ vs))"
  by (simp add: lineIDs_def getRelated_append [of line p IDs] split: sum.splits)

lemma forEachE_concat:
  assumes h: "\<And>s x. h s x = (case g x of Inl e \<Rightarrow> Inl e | Inr vs \<Rightarrow> Inr (s @ vs))"
  shows "forEachE h s xs = (case mapE g xs of Inl e \<Rightarrow> Inl e | Inr vss \<Rightarrow> Inr (s @ concat vss))"
  by (induction xs arbitrary: s) (simp_all add: h split: sum.splits)

lemma relatedOfLines_mapE:
  "relatedOfLines elementId p lines =
     (case mapE (lineIDs elementId p) lines of Inl e \<Rightarrow> Inl e | Inr vss \<Rightarrow> Inr (concat vss))"
  unfolding relatedOfLines_def
  by (simp add: forEachE_concat [where g = "lineIDs elementId p", OF step_lineIDs]
      split: sum.splits)

lemma lineIDs_relation:
  assumes "isPropertyRelation p line rd"
  shows "lineIDs elementId p line =
           Inr (if elementId \<in> set (snd rd) then map Some (fst rd) else [])"
proof -
  from assms obtain obj where line: "line = Item obj"
    and r: "refsField (map_of (json_attrs obj) (relating p)) (fst rd)"
    and d: "refsField (map_of (json_attrs obj) (related p)) (snd rd)"
    by (auto simp: isPropertyRelation_def split: jsval.splits)
  have rel: "isRelated elementId line p = Inr (elementId \<in> set (snd rd))"
    using d
    by (auto simp: isRelated_def line refsField_def mapE_valueOf_refs split: list.splits)
  have get: "getRelated line p [] = Inr (map Some (fst rd))"
    using r
    by (auto simp: getRelated_def line refsField_def mapE_valueOf_refs split: list.splits)
  show ?thesis
    by (simp add: lineIDs_def rel get)
qed

lemma mapE_lineIDs_relations:
  "list_all2 (isPropertyRelation p) lines specs \<Longrightarrow>
     mapE (lineIDs elementId p) lines =
       Inr (map (\<lambda>rd. if elementId \<in> set (snd rd) then map Some (fst rd) else []) specs)"
  by (induction lines specs rule: list_all2_induct) (simp_all add: lineIDs_relation)

lemma mapE_Inr_map:
  "mapE f xs = Inr ys \<Longrightarrow> (\<forall>x \<in> set xs. \<not> isl (f x)) \<and> ys = map (\<lambda>x. projr (f x)) xs"
  by (induction xs arbitrary: ys) (auto split: sum.splits)

lemma mapE_all_Inr:
  "\<forall>x \<in> set xs. \<not> isl (f x) \<Longrightarrow> mapE f xs = Inr (map (\<lambda>x. projr (f x)) xs)"
proof (induction xs)
  case Nil
  then show ?case by simp
next
  case (Cons x xs)
  then show ?case by (cases "f x") simp_all
qed

lemma mapE_permuted:
  assumes "mset xs' = mset xs" and "mapE f xs = Inr ys"
  shows "\<exists>ys'. mapE f xs' = Inr ys' \<and> mset ys' = mset ys"
proof -
  from assms(1) have s: "set xs' = set xs" by (rule mset_eq_setD)
  from mapE_Inr_map [OF assms(2)]
  have ok: "\<forall>x \<in> set xs. \<not> isl (f x)" and ys: "ys = map (\<lambda>x. projr (f x)) xs"
    by simp_all
  have "mapE f xs' = Inr (map (\<lambda>x. projr (f x)) xs')"
    using ok s by (simp add: mapE_all_Inr)
  moreover have "mset (map (\<lambda>x. projr (f x)) xs') = mset ys"
    by (simp add: ys assms(1))
  ultimately show ?thesis by blast
qed

lemma relatedOfLines_permuted:
  assumes "mset lines' = mset lines" and "relatedOfLines elementId p lines = Inr IDs"
  shows "\<exists>IDs'. relatedOfLines elementId p lines' = Inr IDs' \<and> set IDs' = set IDs"
proof -
  from assms(2) obtain vss where v: "mapE (lineIDs elementId p) lines = Inr vss"
    and i: "IDs = concat vss"
    by (auto simp: relatedOfLines_mapE split: sum.splits)
  from mapE_permuted [OF assms(1) v] obtain vss' where
    v': "mapE (lineIDs elementId p) lines' = Inr vss'" and m: "mset vss' = mset vss"
    by blast
  from m have "set vss' = set vss" by (rule mset_eq_setD)
  then have "set (concat vss') = set (concat vss)" by simp
  with v' i show ?thesis by (simp add: relatedOfLines_mapE)
qed

text \<open>
  C5. When every relation record of the descriptor's type refers to ids in its relating field
  and in its related field (each a single reference or an array of references),
  \<open>getPropertyJSON\<close> without recursion returns records whose set is exactly this: for every
  id in the relating field of a relation whose related field contains the element id, the
  record that the table holds for the id, in full (and the empty object for an id without
  a record). The set of records is the same for every order in which the relation records
  are iterated.
\<close>

theorem getPropertyJSON_related:
  assumes "getAllItemsOfTypeJSON state (name p) True = Inr lines"
    and "list_all2 (isPropertyRelation p) lines specs"
  shows "(\<exists>records. getPropertyJSON depth state elementID False p = Inr records
            \<and> set records =
                 (\<lambda>r. case map_of (jsonData state) r of None \<Rightarrow> EmptyItem | Some obj \<Rightarrow> Item obj) `
                 {r. \<exists>rd \<in> set specs. elementID \<in> set (snd rd) \<and> r \<in> set (fst rd)})
         \<and> (mset lines' = mset lines \<longrightarrow>
              (\<exists>IDs'. relatedOfLines elementID p lines' = Inr IDs'
                 \<and> set (getItemsByIDJSON state IDs') =
                     (\<lambda>r. case map_of (jsonData state) r of
                            None \<Rightarrow> EmptyItem
                          | Some obj \<Rightarrow> Item obj) `
                     {r. \<exists>rd \<in> set specs. elementID \<in> set (snd rd) \<and> r \<in> set (fst rd)}))"
proof -
  let ?vss = "map (\<lambda>rd. if elementID \<in> set (snd rd) then map Some (fst rd) else []) specs"
  let ?ids = "{r. \<exists>rd \<in> set specs. elementID \<in> set (snd rd) \<and> r \<in> set (fst rd)}"
  let ?full = "\<lambda>r. case map_of (jsonData state) r of None \<Rightarrow> EmptyItem | Some obj \<Rightarrow> Item obj"
  have full: "copyOf (jsonData state) (Some r) = ?full r" for r
    by (simp add: copyOf_def)
  have ids: "relatedOfLines elementID p lines = Inr (concat ?vss)"
    by (simp add: relatedOfLines_mapE mapE_lineIDs_relations [OF assms(2)])
  have sv: "set (concat ?vss) = Some ` ?ids"
    by auto
  have img: "set (getItemsByIDJSON state IDs) = ?full ` ?ids" if "set IDs = Some ` ?ids" for IDs
  proof -
    have "set (getItemsByIDJSON state IDs) = copyOf (jsonData state) ` Some ` ?ids"
      using that by (simp only: getItemsByIDJSON_def set_map)
    also have "\<dots> = ?full ` ?ids"
      by (simp only: image_image full)
    finally show ?thesis .
  qed
  have r: "getPropertyJSON depth state elementID False p = Inr (getItemsByIDJSON state (concat ?vss))"
    by (simp add: getPropertyJSON_def getAllRelatedItemsOfTypeJSON_def assms(1) ids)
  have b: "\<exists>IDs'. relatedOfLines elementID p lines' = Inr IDs'
                 \<and> set (getItemsByIDJSON state IDs') = ?full ` ?ids"
    if "mset lines' = mset lines"
  proof -
    from relatedOfLines_permuted [OF that ids] obtain IDs' where
      "relatedOfLines elementID p lines' = Inr IDs'" and "set IDs' = set (concat ?vss)"
      by blast
    then show ?thesis
      using img [of IDs'] sv by auto
  qed
  from img [OF sv] r b show ?thesis by blast
qed


subsection \<open>Recursive expansion\<close>

lemma expanded_Item: "expanded b (Item obj) = list_all (\<lambda>kv. expanded True (snd kv)) (json_attrs obj)"
  by (cases obj) simp

lemma expanded_flag: "expanded True v \<Longrightarrow> expanded b v"
  by (cases v) (simp_all add: expanded_Item)

lemma mapE_list_all_aux:
  "mapE f xs = Inr ys \<Longrightarrow> \<forall>x \<in> set xs. \<forall>y. f x = Inr y \<longrightarrow> P y \<Longrightarrow> list_all P ys"
  by (induction xs arbitrary: ys) (auto split: sum.splits)

lemma mapE_list_all:
  assumes "mapE f xs = Inr ys" and "\<And>x y. x \<in> set xs \<Longrightarrow> f x = Inr y \<Longrightarrow> P y"
  shows "list_all P ys"
  using mapE_list_all_aux [OF assms(1)] assms(2) by blast

lemma copyOf_raw:
  assumes "rawData data" and "copyOf data i = Item obj"
  shows "list_all (\<lambda>kv. raw (snd kv)) (json_attrs obj)"
proof -
  from assms(2) obtain k where "map_of data k = Some obj"
    by (auto simp: copyOf_def split: option.splits)
  then have "(k, obj) \<in> set data" by (rule map_of_SomeD)
  with assms(1) show ?thesis
    by (auto simp: rawData_def list_all_iff)
qed

lemma walk_expanded:
  assumes rd: "rawData (jsonData state)"
  shows "getJSONReferencesRecursively d state (copyOf (jsonData state) i) = Inr y \<Longrightarrow>
         expanded True y"
proof (induction d arbitrary: i y)
  case 0
  then show ?case by simp
next
  case (Suc d)
  let ?rec = "getJSONReferencesRecursively d state"
  have IH: "\<And>r z. ?rec (copyOf (jsonData state) (Some r)) = Inr z \<Longrightarrow> expanded b z" for b
    by (rule expanded_flag) (rule Suc.IH)
  have elem: "expanded False z"
    if "x \<noteq> Null \<and> raw x"
      and "(case x of
              Null \<Rightarrow> Inl TypeError
            | Tagged t v \<Rightarrow> if t = 5 then ?rec (copyOf (jsonData state) (Some v)) else Inr x
            | _ \<Rightarrow> Inr x) = Inr z" for x z
    using that by (cases x) (auto split: if_splits dest: IH)
  have field: "expanded True v'" if "raw v" and "getJSONItem ?rec state v = Inr v'" for v v'
  proof (cases v)
    case (Arr elems)
    with that(2) obtain elems' where
      m: "mapE (\<lambda>item. case item of
              Null \<Rightarrow> Inl TypeError
            | Tagged t v \<Rightarrow> if t = 5 then ?rec (copyOf (jsonData state) (Some v)) else Inr item
            | _ \<Rightarrow> Inr item) elems = Inr elems'"
      and v': "v' = Arr elems'"
      by (auto simp: getJSONItem_def getMultipleJSONItems_def split: sum.splits)
    from that(1) Arr have r: "\<And>x. x \<in> set elems \<Longrightarrow> x \<noteq> Null \<and> raw x"
      by (simp add: list_all_iff)
    have "list_all (expanded False) elems'"
      using m by (rule mapE_list_all) (rule elem [OF r])
    then show ?thesis by (simp add: v')
  next
    case (Tagged t r)
    with that(2) show ?thesis
      by (auto simp: getJSONItem_def split: if_splits dest: IH)
  qed (use that in \<open>auto simp: getJSONItem_def\<close>)
  show ?case
  proof (cases "copyOf (jsonData state) i")
    case (Item obj)
    from copyOf_raw [OF rd Item] have r: "\<And>kv. kv \<in> set (json_attrs obj) \<Longrightarrow> raw (snd kv)"
      by (simp add: list_all_iff)
    from Suc.prems Item obtain attrs' where
      m: "mapE (\<lambda>kv. case getJSONItem ?rec state (snd kv) of
                        Inl e \<Rightarrow> Inl e
                      | Inr v' \<Rightarrow> Inr (fst kv, v')) (json_attrs obj) = Inr attrs'"
      and y: "y = Item (JSONObject (json_expressID obj) (json_type obj) attrs')"
      by (auto split: sum.splits)
    have "list_all (\<lambda>kv. expanded True (snd kv)) attrs'"
      using m
    proof (rule mapE_list_all)
      fix kv kv' assume "kv \<in> set (json_attrs obj)"
        and "(case getJSONItem ?rec state (snd kv) of
                Inl e \<Rightarrow> Inl e
              | Inr v' \<Rightarrow> Inr (fst kv, v')) = Inr kv'"
      then show "expanded True (snd kv')"
        by (auto split: sum.splits dest!: r intro: field)
    qed
    then show ?thesis by (simp add: y)
  next
    case EmptyItem
    with Suc.prems show ?thesis by auto
  qed (auto simp: copyOf_def split: option.splits)
qed

lemma mapE_same:
  "(\<And>x. x \<in> set xs \<Longrightarrow> f x = Inr x) \<Longrightarrow> mapE f xs = Inr xs"
  by (induction xs) simp_all

lemma getJSONItem_plain:
  assumes "plainField v"
  shows "getJSONItem recur state v = Inr v"
proof (cases v)
  case (Arr elems)
  have "mapE (\<lambda>item. case item of
              Null \<Rightarrow> Inl TypeError
            | Tagged t v \<Rightarrow> if t = 5 then recur (copyOf (jsonData state) (Some v)) else Inr item
            | _ \<Rightarrow> Inr item) elems = Inr elems"
  proof (rule mapE_same)
    fix x assume "x \<in> set elems"
    with assms Arr show "(case x of
              Null \<Rightarrow> Inl TypeError
            | Tagged t v \<Rightarrow> if t = 5 then recur (copyOf (jsonData state) (Some v)) else Inr x
            | _ \<Rightarrow> Inr x) = Inr x"
      by (auto simp: plainField_def list_all_iff split: jsval.splits)
  qed
  then show ?thesis by (simp add: Arr getJSONItem_def getMultipleJSONItems_def)
qed (use assms in \<open>auto simp: getJSONItem_def plainField_def\<close>)

lemma mapE_succeeds:
  "(\<And>x. x \<in> set xs \<Longrightarrow> \<exists>y. f x = Inr y) \<Longrightarrow> \<exists>ys. mapE f xs = Inr ys"
proof (induction xs)
  case Nil
  then show ?case by simp
next
  case (Cons x xs)
  from Cons.prems [of x] obtain y where "f x = Inr y" by auto
  moreover from Cons.IH Cons.prems obtain ys where "mapE f xs = Inr ys" by auto
  ultimately show ?case by simp
qed

lemma walk_returns:
  assumes rd: "rawData (jsonData state)" and rk: "ranked rank (jsonData state)"
  shows "(case i of None \<Rightarrow> 0 | Some k \<Rightarrow> rank k) < d \<Longrightarrow>
         \<exists>y. getJSONReferencesRecursively d state (copyOf (jsonData state) i) = Inr y"
proof (induction d arbitrary: i)
  case 0
  then show ?case by simp
next
  case (Suc d)
  let ?rec = "getJSONReferencesRecursively d state"
  show ?case
  proof (cases "copyOf (jsonData state) i")
    case (Item obj)
    then obtain k where i: "i = Some k" and k: "map_of (jsonData state) k = Some obj"
      by (auto simp: copyOf_def split: option.splits)
    from k have mem: "(k, obj) \<in> set (jsonData state)" by (rule map_of_SomeD)
    from Suc.prems i have kd: "rank k \<le> d" by simp
    have IH: "\<exists>y. ?rec (copyOf (jsonData state) (Some r)) = Inr y" if "rank r < rank k" for r
      using Suc.IH [of "Some r"] that kd by simp
    have field: "\<exists>v'. getJSONItem ?rec state v = Inr v'"
      if v: "(a, v) \<in> set (json_attrs obj)" for a v
    proof -
      from rd mem v have raw: "raw v"
        by (force simp: rawData_def list_all_iff)
      from rk mem v have "\<forall>r \<in> set (fieldRefs v). rank r < rank k"
        by (force simp: ranked_def list_all_iff)
      then have refs: "\<And>r. r \<in> set (fieldRefs v) \<Longrightarrow> rank r < rank k"
        by blast
      show ?thesis
      proof (cases v)
        case (Arr elems)
        have "\<exists>ys. mapE (\<lambda>item. case item of
              Null \<Rightarrow> Inl TypeError
            | Tagged t v \<Rightarrow> if t = 5 then ?rec (copyOf (jsonData state) (Some v)) else Inr item
            | _ \<Rightarrow> Inr item) elems = Inr ys"
        proof (rule mapE_succeeds)
          fix x assume x: "x \<in> set elems"
          with raw Arr have nn: "x \<noteq> Null" by (simp add: list_all_iff)
          show "\<exists>y. (case x of
              Null \<Rightarrow> Inl TypeError
            | Tagged t v \<Rightarrow> if t = 5 then ?rec (copyOf (jsonData state) (Some v)) else Inr x
            | _ \<Rightarrow> Inr x) = Inr y"
          proof (cases x)
            case (Tagged t r)
            show ?thesis
            proof (cases "t = 5")
              case True
              with x Tagged Arr have "r \<in> set (fieldRefs v)"
                by (force simp: fieldRefs_def)
              from IH [OF refs [OF this]] show ?thesis by (simp add: Tagged True)
            qed (simp add: Tagged)
          qed (use nn in simp_all)
        qed
        then show ?thesis
          by (auto simp: Arr getJSONItem_def getMultipleJSONItems_def)
      next
        case (Tagged t r)
        show ?thesis
        proof (cases "t = 5")
          case True
          with Tagged have "r \<in> set (fieldRefs v)" by (simp add: fieldRefs_def)
          from IH [OF refs [OF this]] show ?thesis by (simp add: Tagged True getJSONItem_def)
        qed (simp add: Tagged getJSONItem_def)
      qed (simp_all add: getJSONItem_def)
    qed
    have "\<exists>attrs'. mapE (\<lambda>kv. case getJSONItem ?rec state (snd kv) of
                        Inl e \<Rightarrow> Inl e
                      | Inr v' \<Rightarrow> Inr (fst kv, v')) (json_attrs obj) = Inr attrs'"
    proof (rule mapE_succeeds)
      fix kv assume "kv \<in> set (json_attrs obj)"
      then have "(fst kv, snd kv) \<in> set (json_attrs obj)" by simp
      from field [OF this] show "\<exists>y. (case getJSONItem ?rec state (snd kv) of
                        Inl e \<Rightarrow> Inl e
                      | Inr v' \<Rightarrow> Inr (fst kv, v')) = Inr y"
        by auto
    qed
    then show ?thesis by (auto simp: Item)
  qed (auto simp: copyOf_def split: option.splits)
qed

text \<open>
  C6, as amended. On a table of values as the parser stores them, the records that
  \<open>getPropertyJSON\<close> returns with recursion have no reference left in a field or among the
  elements of an array field, and neither have the records that replaced the references;
  references in an array inside an array are not visited and stay. When the references of
  the table descend, the walk of a record does return, given a call stack deeper than the
  rank of the record. The walk leaves a record unchanged whose fields hold no reference (and
  no array with a reference or a null element, which would make it raise).
\<close>

theorem getPropertyJSON_expanded:
  "(rawData (jsonData state)
      \<and> getPropertyJSON depth state elementID True p = Inr records
      \<longrightarrow> list_all (expanded True) records)
   \<and> (rawData (jsonData state) \<and> ranked rank (jsonData state)
        \<and> (case i of None \<Rightarrow> 0 | Some k \<Rightarrow> rank k) < depth
      \<longrightarrow> (\<exists>y. getJSONReferencesRecursively depth state (copyOf (jsonData state) i) = Inr y
                \<and> expanded True y))
   \<and> (list_all (\<lambda>kv. plainField (snd kv)) (json_attrs obj)
      \<longrightarrow> getJSONReferencesRecursively (Suc depth) state (Item obj) = Inr (Item obj))"
proof -
  have a: "list_all (expanded True) records"
    if rd: "rawData (jsonData state)"
      and r: "getPropertyJSON depth state elementID True p = Inr records"
  proof -
    from r obtain ids where
      m: "mapE (getJSONReferencesRecursively depth state) (getItemsByIDJSON state ids) = Inr records"
      by (auto simp: getPropertyJSON_def split: sum.splits)
    show ?thesis
      using m
    proof (rule mapE_list_all)
      fix x y assume "x \<in> set (getItemsByIDJSON state ids)"
        and w: "getJSONReferencesRecursively depth state x = Inr y"
      then obtain i where "x = copyOf (jsonData state) i"
        by (auto simp: getItemsByIDJSON_def)
      with w show "expanded True y" by (auto dest: walk_expanded [OF rd])
    qed
  qed
  have b: "getJSONReferencesRecursively (Suc depth) state (Item obj) = Inr (Item obj)"
    if pl: "list_all (\<lambda>kv. plainField (snd kv)) (json_attrs obj)"
  proof -
    have "mapE (\<lambda>kv. case getJSONItem (getJSONReferencesRecursively depth state) state (snd kv) of
                        Inl e \<Rightarrow> Inl e
                      | Inr v' \<Rightarrow> Inr (fst kv, v')) (json_attrs obj) = Inr (json_attrs obj)"
    proof (rule mapE_same)
      fix kv assume "kv \<in> set (json_attrs obj)"
      with pl have "plainField (snd kv)" by (simp add: list_all_iff)
      then show "(case getJSONItem (getJSONReferencesRecursively depth state) state (snd kv) of
                        Inl e \<Rightarrow> Inl e
                      | Inr v' \<Rightarrow> Inr (fst kv, v')) = Inr kv"
        by (simp add: getJSONItem_plain)
    qed
    then show ?thesis by simp
  qed
  have c: "\<exists>y. getJSONReferencesRecursively depth state (copyOf (jsonData state) i) = Inr y
                \<and> expanded True y"
    if "rawData (jsonData state)" "ranked rank (jsonData state)"
       "(case i of None \<Rightarrow> 0 | Some k \<Rightarrow> rank k) < depth"
    using walk_returns [OF that] walk_expanded [OF that(1)] by blast
  from a b c show ?thesis by blast
qed

lemma psetData_lines:
  "getAllItemsOfTypeJSON (jsonState psetData) (name (psets fixtureNames)) True =
     Inr [Item (JSONObject 30 ''IfcRelDefinesByProperties''
            [(''RelatingPropertyDefinition'', Tagged 5 20),
             (''RelatedObjects'', Arr [Tagged 5 3, Tagged 5 4])]),
          Item (JSONObject 31 ''IfcRelDefinesByProperties''
            [(''RelatingPropertyDefinition'', Arr [Tagged 5 24, Tagged 5 20]),
             (''RelatedObjects'', Tagged 5 4)]),
          Item (JSONObject 32 ''IfcRelDefinesByProperties''
            [(''RelatingPropertyDefinition'', Tagged 5 22),
             (''RelatedObjects'', Arr [Tagged 5 3])])]"
  by code_simp

lemma psetData_raw: "rawData (jsonData (jsonState psetData))"
  by code_simp

lemma psetData_ranked: "ranked psetRank (jsonData (jsonState psetData))"
  by code_simp

lemma psetData_expanded:
  "getPropertyJSON 3 (jsonState psetData) 4 True (psets fixtureNames) = Inr psetExpanded"
  by code_simp

theorem getPropertyJSON_expanded_witness:
  "rawData (jsonData (jsonState psetData))
   \<and> getPropertyJSON 3 (jsonState psetData) 4 True (psets fixtureNames) = Inr psetExpanded
   \<and> list_all (expanded True) psetExpanded
   \<and> ranked psetRank (jsonData (jsonState psetData))
   \<and> (case Some 20 of None \<Rightarrow> 0 | Some k \<Rightarrow> psetRank k) < 3
   \<and> (\<exists>y. getJSONReferencesRecursively 3 (jsonState psetData)
              (copyOf (jsonData (jsonState psetData)) (Some 20)) = Inr y \<and> expanded True y)
   \<and> list_all (\<lambda>kv. plainField (snd kv))
        (json_attrs (JSONObject 21 ''IfcPropertySingleValue''
           [(''Name'', Tagged 1 72), (''NominalValue'', Tagged 4 3), (''Unit'', Null)]))
   \<and> getJSONReferencesRecursively (Suc 3) (jsonState psetData)
        (Item (JSONObject 21 ''IfcPropertySingleValue''
           [(''Name'', Tagged 1 72), (''NominalValue'', Tagged 4 3), (''Unit'', Null)])) =
       Inr (Item (JSONObject 21 ''IfcPropertySingleValue''
           [(''Name'', Tagged 1 72), (''NominalValue'', Tagged 4 3), (''Unit'', Null)]))"
proof -
  have k: "(case Some 20 of None \<Rightarrow> 0 | Some k \<Rightarrow> psetRank k) < 3"
    by (simp add: psetRank_def)
  have pl: "list_all (\<lambda>kv. plainField (snd kv))
        (json_attrs (JSONObject 21 ''IfcPropertySingleValue''
           [(''Name'', Tagged 1 72), (''NominalValue'', Tagged 4 3), (''Unit'', Null)]))"
    by (simp add: plainField_def)
  show ?thesis
    using getPropertyJSON_expanded
      [of "jsonState psetData" 3 4 "psets fixtureNames" psetExpanded psetRank "Some 20"
        "JSONObject 21 ''IfcPropertySingleValue''
           [(''Name'', Tagged 1 72), (''NominalValue'', Tagged 4 3), (''Unit'', Null)]"]
      psetData_raw psetData_expanded psetData_ranked k pl
    by blast
qed

text \<open>
  The references in a list of lists are returned as they are: the type of the wall, fully
  walked, still refers to the two control points.
\<close>

theorem getPropertyJSON_nested_counterexample:
  "getPropertyJSON 4 (jsonState nestedData) 4 True (typeProps fixtureNames) =
     Inr [Item (JSONObject 40 ''IfcWallType''
            [(''RepresentationMaps'',
              Arr [Item (JSONObject 41 ''IfcBSplineSurface''
                     [(''ControlPointsList'', Arr [Arr [Tagged 5 42, Tagged 5 43]])])])])]"
  by code_simp

theorem getPropertyJSON_related_witness:
  "getAllItemsOfTypeJSON (jsonState psetData) (name (psets fixtureNames)) True =
     Inr [Item (JSONObject 30 ''IfcRelDefinesByProperties''
            [(''RelatingPropertyDefinition'', Tagged 5 20),
             (''RelatedObjects'', Arr [Tagged 5 3, Tagged 5 4])]),
          Item (JSONObject 31 ''IfcRelDefinesByProperties''
            [(''RelatingPropertyDefinition'', Arr [Tagged 5 24, Tagged 5 20]),
             (''RelatedObjects'', Tagged 5 4)]),
          Item (JSONObject 32 ''IfcRelDefinesByProperties''
            [(''RelatingPropertyDefinition'', Tagged 5 22),
             (''RelatedObjects'', Arr [Tagged 5 3])])]
   \<and> (\<exists>records. getPropertyJSON 0 (jsonState psetData) 4 False (psets fixtureNames) = Inr records
         \<and> set records =
             {Item (JSONObject 20 ''IfcPropertySet''
                [(''Name'', Tagged 1 71), (''HasProperties'', Arr [Tagged 5 21, Tagged 5 22])]),
              Item (JSONObject 24 ''IfcPropertySet''
                [(''Name'', Tagged 1 74), (''HasProperties'', Arr [])])})
   \<and> (\<exists>IDs'. relatedOfLines 4 (psets fixtureNames)
          [Item (JSONObject 32 ''IfcRelDefinesByProperties''
            [(''RelatingPropertyDefinition'', Tagged 5 22),
             (''RelatedObjects'', Arr [Tagged 5 3])]),
           Item (JSONObject 31 ''IfcRelDefinesByProperties''
            [(''RelatingPropertyDefinition'', Arr [Tagged 5 24, Tagged 5 20]),
             (''RelatedObjects'', Tagged 5 4)]),
           Item (JSONObject 30 ''IfcRelDefinesByProperties''
            [(''RelatingPropertyDefinition'', Tagged 5 20),
             (''RelatedObjects'', Arr [Tagged 5 3, Tagged 5 4])])] = Inr IDs'
         \<and> set (getItemsByIDJSON (jsonState psetData) IDs') =
             {Item (JSONObject 20 ''IfcPropertySet''
                [(''Name'', Tagged 1 71), (''HasProperties'', Arr [Tagged 5 21, Tagged 5 22])]),
              Item (JSONObject 24 ''IfcPropertySet''
                [(''Name'', Tagged 1 74), (''HasProperties'', Arr [])])})"
proof -
  let ?l30 = "Item (JSONObject 30 ''IfcRelDefinesByProperties''
            [(''RelatingPropertyDefinition'', Tagged 5 20),
             (''RelatedObjects'', Arr [Tagged 5 3, Tagged 5 4])])"
  let ?l31 = "Item (JSONObject 31 ''IfcRelDefinesByProperties''
            [(''RelatingPropertyDefinition'', Arr [Tagged 5 24, Tagged 5 20]),
             (''RelatedObjects'', Tagged 5 4)])"
  let ?l32 = "Item (JSONObject 32 ''IfcRelDefinesByProperties''
            [(''RelatingPropertyDefinition'', Tagged 5 22),
             (''RelatedObjects'', Arr [Tagged 5 3])])"
  let ?specs = "[([20], [3, 4]), ([24, 20], [4]), ([22], [3 :: nat])] :: (nat list \<times> nat list) list"
  let ?full = "\<lambda>r. case map_of (jsonData (jsonState psetData)) r of
                     None \<Rightarrow> EmptyItem
                   | Some obj \<Rightarrow> Item obj"
  have rel: "list_all2 (isPropertyRelation (psets fixtureNames)) [?l30, ?l31, ?l32] ?specs"
    by (simp add: isPropertyRelation_def refsField_def fixtureNames_def)
  have perm: "mset [?l32, ?l31, ?l30] = mset [?l30, ?l31, ?l32]"
    by simp
  have ids: "{r. \<exists>rd \<in> set ?specs. (4 :: nat) \<in> set (snd rd) \<and> r \<in> set (fst rd)} = {20, 24}"
    by auto
  have recs: "?full ` {20, 24} =
      {Item (JSONObject 20 ''IfcPropertySet''
         [(''Name'', Tagged 1 71), (''HasProperties'', Arr [Tagged 5 21, Tagged 5 22])]),
       Item (JSONObject 24 ''IfcPropertySet''
         [(''Name'', Tagged 1 74), (''HasProperties'', Arr [])])}"
    by (simp add: jsonState_def psetData_def)
  from getPropertyJSON_related [OF psetData_lines rel, of 0 4 "[?l32, ?l31, ?l30]"] perm
  have "\<exists>records. getPropertyJSON 0 (jsonState psetData) 4 False (psets fixtureNames) = Inr records
            \<and> set records = ?full ` {20, 24}"
    and "\<exists>IDs'. relatedOfLines 4 (psets fixtureNames) [?l32, ?l31, ?l30] = Inr IDs'
            \<and> set (getItemsByIDJSON (jsonState psetData) IDs') = ?full ` {20, 24}"
    unfolding ids by blast+
  then show ?thesis
    unfolding recs using psetData_lines by blast
qed

subsection \<open>The geometry parser\<close>

lemma createMaterial_keeps:
  "items model k = Some entry \<Longrightarrow> items (createMaterial num model cid c) k = Some entry"
  by (auto simp: createMaterial_def Let_def split: option.splits)

lemma createMaterial_entry:
  "\<exists>entry. items (createMaterial num model cid c) cid = Some entry"
  by (auto simp: createMaterial_def Let_def split: option.splits)

lemma createMaterial_other:
  "k \<noteq> cid \<Longrightarrow> items (createMaterial num model cid c) k = items model k"
  by (auto simp: createMaterial_def Let_def split: option.splits)

lemma createMaterial_cached:
  "cached model \<Longrightarrow> cached (createMaterial num model cid c)"
proof (cases "items model cid")
  case (Some entry)
  then show "cached model \<Longrightarrow> cached (createMaterial num model cid c)"
    by (simp add: createMaterial_def)
next
  case None
  assume cm: "cached model"
  let ?m = "createMaterial num model cid c"
  have new: "\<exists>e. items ?m cid = Some e \<and> materialId (material e) = materialCount model"
    and cnt: "materialCount ?m = Suc (materialCount model)"
    and old: "\<And>k. k \<noteq> cid \<Longrightarrow> items ?m k = items model k"
    using None by (simp_all add: createMaterial_def Let_def)
  have bound: "materialId (material e) < materialCount model" if "items model k = Some e" for k e
    using cm that unfolding cached_def by blast
  have lt: "materialId (material e) < Suc (materialCount model)
            \<and> (k \<noteq> cid \<longrightarrow> materialId (material e) < materialCount model)
            \<and> (k = cid \<longrightarrow> materialId (material e) = materialCount model)"
    if "items ?m k = Some e" for k e
  proof (cases "k = cid")
    case True
    with that new show ?thesis by auto
  next
    case False
    with that old [OF False] bound [of k e] show ?thesis by auto
  qed
  show "cached ?m"
    unfolding cached_def
  proof (intro conjI allI impI)
    fix k e assume "items ?m k = Some e"
    from lt [OF this] show "materialId (material e) < materialCount ?m"
      by (simp add: cnt)
  next
    fix k k' e e'
    assume a: "items ?m k = Some e \<and> items ?m k' = Some e' \<and> k \<noteq> k'"
    show "materialId (material e) \<noteq> materialId (material e')"
    proof (cases "k = cid \<or> k' = cid")
      case True
      with a lt [of k e] lt [of k' e'] show ?thesis by auto
    next
      case False
      with a old [of k] old [of k'] cm show ?thesis
        unfolding cached_def by metis
    qed
  qed
qed

lemma saveGeometryByMaterial_Inr:
  "\<exists>model'. saveGeometryByMaterial num model geom placedGeom elementId = Inr model'"
  using createMaterial_entry [of num model "colorID num (color placedGeom)" "color placedGeom"]
  by (auto simp: saveGeometryByMaterial_def Let_def split: option.splits)

lemma saveGeometryByMaterial_material:
  assumes "saveGeometryByMaterial num model geom placedGeom elementId = Inr model'"
  shows "\<exists>entry entry'. items (createMaterial num model (colorID num (color placedGeom)) (color placedGeom))
              (colorID num (color placedGeom)) = Some entry
           \<and> items model' = (items (createMaterial num model (colorID num (color placedGeom))
                 (color placedGeom)))(colorID num (color placedGeom) \<mapsto> entry')
           \<and> material entry' = material entry
           \<and> materialCount model' =
               materialCount (createMaterial num model (colorID num (color placedGeom)) (color placedGeom))"
  using assms
  by (auto simp: saveGeometryByMaterial_def Let_def split: option.splits)

lemma saveGeometryByMaterial_keeps:
  assumes "saveGeometryByMaterial num model geom placedGeom elementId = Inr model'"
    and "items model k = Some entry"
  shows "\<exists>entry'. items model' k = Some entry' \<and> material entry' = material entry"
proof -
  let ?cid = "colorID num (color placedGeom)"
  let ?m = "createMaterial num model ?cid (color placedGeom)"
  from saveGeometryByMaterial_material [OF assms(1)] obtain e e' where
    e: "items ?m ?cid = Some e" and i: "items model' = (items ?m)(?cid \<mapsto> e')"
    and m: "material e' = material e"
    by blast
  from assms(2) have k: "items ?m k = Some entry" by (rule createMaterial_keeps)
  show ?thesis
  proof (cases "k = ?cid")
    case True
    with e k have "e = entry" by simp
    with i m True show ?thesis by simp
  next
    case False
    with i k show ?thesis by simp
  qed
qed

lemma saveGeometryByMaterial_cached:
  assumes "saveGeometryByMaterial num model geom placedGeom elementId = Inr model'"
    and "cached model"
  shows "cached model'"
proof -
  let ?cid = "colorID num (color placedGeom)"
  let ?m = "createMaterial num model ?cid (color placedGeom)"
  from saveGeometryByMaterial_material [OF assms(1)] obtain e e' where
    e: "items ?m ?cid = Some e" and i: "items model' = (items ?m)(?cid \<mapsto> e')"
    and m: "material e' = material e" and c: "materialCount model' = materialCount ?m"
    by blast
  from assms(2) have cm: "cached ?m" by (rule createMaterial_cached)
  have look: "\<exists>x. items ?m k = Some x \<and> material x = material y"
    if "items model' k = Some y" for k y
    using that e m by (cases "k = ?cid") (auto simp: i)
  show ?thesis
    unfolding cached_def
  proof (intro conjI allI impI)
    fix k entry assume "items model' k = Some entry"
    from look [OF this] obtain x where x: "items ?m k = Some x" "material x = material entry"
      by blast
    from cm x(1) have "materialId (material x) < materialCount ?m"
      unfolding cached_def by blast
    then show "materialId (material entry) < materialCount model'"
      by (simp add: c x(2))
  next
    fix k k' entry entry'
    assume "items model' k = Some entry \<and> items model' k' = Some entry' \<and> k \<noteq> k'"
    then obtain x x' where "items ?m k = Some x" "material x = material entry"
      "items ?m k' = Some x'" "material x' = material entry'" "k \<noteq> k'"
      using look by blast
    with cm show "materialId (material entry) \<noteq> materialId (material entry')"
      unfolding cached_def by metis
  qed
qed

lemma saveAll_Nil: "saveAll num model [] = Inr model"
  by (simp add: saveAll_def)

lemma saveAll_Cons:
  "saveAll num model (f # fs) =
     (case saveGeometryByMaterial num model (fst f) (fst (snd f)) (snd (snd f)) of
        Inl e \<Rightarrow> Inl e
      | Inr model' \<Rightarrow> saveAll num model' fs)"
  by (simp add: saveAll_def split: sum.splits)

lemma saveAll_keeps:
  "items model k = Some entry \<Longrightarrow>
     \<exists>model' entry'. saveAll num model fragments = Inr model'
        \<and> items model' k = Some entry' \<and> material entry' = material entry"
proof (induction fragments arbitrary: model entry)
  case Nil
  then show ?case by (simp add: saveAll_Nil)
next
  case (Cons f fs)
  obtain m1 where m1: "saveGeometryByMaterial num model (fst f) (fst (snd f)) (snd (snd f)) = Inr m1"
    using saveGeometryByMaterial_Inr by blast
  from saveGeometryByMaterial_keeps [OF m1 Cons.prems] obtain e1 where
    e1: "items m1 k = Some e1" and m: "material e1 = material entry"
    by blast
  from Cons.IH [OF e1] m show ?case
    by (auto simp: saveAll_Cons m1)
qed

lemma saveAll_cached:
  "saveAll num model fragments = Inr model' \<Longrightarrow> cached model \<Longrightarrow> cached model'"
proof (induction fragments arbitrary: model)
  case Nil
  then show ?case by (simp add: saveAll_Nil)
next
  case (Cons f fs)
  from Cons.prems(1) obtain m1 where
    m1: "saveGeometryByMaterial num model (fst f) (fst (snd f)) (snd (snd f)) = Inr m1"
    and r: "saveAll num m1 fs = Inr model'"
    by (auto simp: saveAll_Cons split: sum.splits)
  from saveGeometryByMaterial_cached [OF m1 Cons.prems(2)] have "cached m1" .
  with r show ?case by (rule Cons.IH)
qed

lemma saveGeometryByMaterial_dom:
  assumes "saveGeometryByMaterial num model geom placedGeom elementId = Inr model'"
  shows "dom (items model') = insert (colorID num (color placedGeom)) (dom (items model))"
proof -
  let ?cid = "colorID num (color placedGeom)"
  let ?m = "createMaterial num model ?cid (color placedGeom)"
  from saveGeometryByMaterial_material [OF assms] obtain e e' where
    i: "items model' = (items ?m)(?cid \<mapsto> e')"
    by blast
  have "dom (items ?m) = insert ?cid (dom (items model))"
    by (auto simp: createMaterial_def Let_def split: option.splits if_splits)
  with i show ?thesis by simp
qed

lemma saveAll_dom:
  "saveAll num model fragments = Inr model' \<Longrightarrow>
     dom (items model') = fragmentKey num ` set fragments \<union> dom (items model)"
proof (induction fragments arbitrary: model)
  case Nil
  then show ?case by (simp add: saveAll_Nil)
next
  case (Cons f fs)
  from Cons.prems(1) obtain m1 where
    m1: "saveGeometryByMaterial num model (fst f) (fst (snd f)) (snd (snd f)) = Inr m1"
    and r: "saveAll num m1 fs = Inr model'"
    by (auto simp: saveAll_Cons split: sum.splits)
  from Cons.IH [OF r] saveGeometryByMaterial_dom [OF m1] show ?case
    by (auto simp: fragmentKey_def)
qed

lemma cached_new: "cached (newIfcModel created)"
  by (simp add: cached_def newIfcModel_def)

text \<open>
  C8. Processing any sequence of fragments raises no error and keeps the material of every
  colour key that already has one: it is the same instance afterwards. A fragment whose
  colour key has no entry creates the material of that key, a new instance; a fragment whose
  colour key has an entry creates none. After a sequence of fragments, started on a new
  model, the colour keys with a material are exactly the colour keys of the fragments, and
  different keys hold different instances.
\<close>

theorem createMaterial_once:
  "(\<exists>model'. saveAll num model fragments = Inr model'
      \<and> (items model k = Some entry
           \<longrightarrow> (\<exists>entry'. items model' k = Some entry' \<and> material entry' = material entry)))
   \<and> (items model (colorID num (color placedGeom)) = None
        \<longrightarrow> (\<exists>model' entry'.
               saveGeometryByMaterial num model geom placedGeom elementId = Inr model'
             \<and> items model' (colorID num (color placedGeom)) = Some entry'
             \<and> materialId (material entry') = materialCount model
             \<and> materialCount model' = Suc (materialCount model)))
   \<and> (items model (colorID num (color placedGeom)) = Some entry
        \<longrightarrow> (\<exists>model'.
               saveGeometryByMaterial num model geom placedGeom elementId = Inr model'
             \<and> materialCount model' = materialCount model))
   \<and> (saveAll num (newIfcModel created) fragments = Inr final
        \<longrightarrow> dom (items final) = fragmentKey num ` set fragments
          \<and> (items final k = Some entry \<and> items final k' = Some entry' \<and> k \<noteq> k'
               \<longrightarrow> materialId (material entry) \<noteq> materialId (material entry')))"
proof -
  have a: "\<exists>model'. saveAll num model fragments = Inr model'
      \<and> (items model k = Some entry
           \<longrightarrow> (\<exists>entry'. items model' k = Some entry' \<and> material entry' = material entry))"
  proof (cases "items model k = Some entry")
    case True
    from saveAll_keeps [OF True, of num fragments] show ?thesis by blast
  next
    case False
    have "\<exists>model'. saveAll num model fragments = Inr model'"
    proof (induction fragments arbitrary: model)
      case Nil
      then show ?case by (simp add: saveAll_Nil)
    next
      case (Cons f fs)
      obtain m1 where "saveGeometryByMaterial num model (fst f) (fst (snd f)) (snd (snd f)) = Inr m1"
        using saveGeometryByMaterial_Inr by blast
      with Cons.IH [of m1] show ?case by (auto simp: saveAll_Cons)
    qed
    with False show ?thesis by blast
  qed
  have b: "\<exists>model' entry'.
               saveGeometryByMaterial num model geom placedGeom elementId = Inr model'
             \<and> items model' (colorID num (color placedGeom)) = Some entry'
             \<and> materialId (material entry') = materialCount model
             \<and> materialCount model' = Suc (materialCount model)"
    if "items model (colorID num (color placedGeom)) = None"
    using that
    by (auto simp: saveGeometryByMaterial_def createMaterial_def Let_def split: option.splits)
  have c: "\<exists>model'.
               saveGeometryByMaterial num model geom placedGeom elementId = Inr model'
             \<and> materialCount model' = materialCount model"
    if "items model (colorID num (color placedGeom)) = Some entry"
    using that
    by (auto simp: saveGeometryByMaterial_def createMaterial_def Let_def split: option.splits)
  have d: "dom (items final) = fragmentKey num ` set fragments
          \<and> (items final k = Some entry \<and> items final k' = Some entry' \<and> k \<noteq> k'
               \<longrightarrow> materialId (material entry) \<noteq> materialId (material entry'))"
    if f: "saveAll num (newIfcModel created) fragments = Inr final"
  proof -
    from saveAll_cached [OF f cached_new] have "cached final" .
    moreover from saveAll_dom [OF f] have "dom (items final) = fragmentKey num ` set fragments"
      by (simp add: newIfcModel_def)
    ultimately show ?thesis unfolding cached_def by blast
  qed
  from a b c d show ?thesis by blast
qed

lemma merge_count:
  "length (position (merge [g1, g2])) = length (position g1) + length (position g2)"
  by (simp add: merge_def)

text \<open>
  C9. Two fragments with the same element id and the same colour key, saved one after the
  other into a model that holds no geometry for that element under that key, leave one
  geometry there: the merge of the two, whose vertex count is the sum of the vertex counts
  of the fragments.
\<close>

theorem saveGeometryByMaterial_merge:
  assumes "colorID num (color placed1) = colorID num (color placed2)"
    and "case items model (colorID num (color placed1)) of
           None \<Rightarrow> True
         | Some entry \<Rightarrow> geometries entry elementId = None"
  shows "\<exists>model1 model2 entry g.
           saveGeometryByMaterial num model geom1 placed1 elementId = Inr model1
         \<and> saveGeometryByMaterial num model1 geom2 placed2 elementId = Inr model2
         \<and> items model2 (colorID num (color placed1)) = Some entry
         \<and> geometries entry elementId = Some g
         \<and> g = merge [storeGeometryAttribute elementId geom1, storeGeometryAttribute elementId geom2]
         \<and> length (position g) = length (position geom1) + length (position geom2)"
proof -
  let ?cid = "colorID num (color placed1)"
  obtain model1 where m1: "saveGeometryByMaterial num model geom1 placed1 elementId = Inr model1"
    using saveGeometryByMaterial_Inr by blast
  from m1 assms(2) obtain e1 where e1: "items model1 ?cid = Some e1"
    and g1: "geometries e1 elementId = Some (storeGeometryAttribute elementId geom1)"
    by (auto simp: saveGeometryByMaterial_def createMaterial_def Let_def
        split: option.splits)
  obtain model2 where m2: "saveGeometryByMaterial num model1 geom2 placed2 elementId = Inr model2"
    using saveGeometryByMaterial_Inr by blast
  from m2 e1 g1 assms(1) obtain e2 where e2: "items model2 ?cid = Some e2"
    and g2: "geometries e2 elementId =
        Some (merge [storeGeometryAttribute elementId geom1, storeGeometryAttribute elementId geom2])"
    by (auto simp: saveGeometryByMaterial_def createMaterial_def Let_def
        split: option.splits)
  have "length (position (merge [storeGeometryAttribute elementId geom1,
            storeGeometryAttribute elementId geom2])) =
        length (position geom1) + length (position geom2)"
    by (simp add: merge_count storeGeometryAttribute_def)
  with m1 m2 e2 g2 show ?thesis by blast
qed


lemma red_key: "colorID unitNumber (color red) = ''1001''"
  by (simp add: colorID_def unitNumber_def red_def)

theorem createMaterial_once_witness:
  "items (newIfcModel 0 :: (nat, unit) IfcModel) (colorID unitNumber (color red)) = None
   \<and> (\<exists>m1 e1. saveGeometryByMaterial unitNumber (newIfcModel 0) triangle red 7 = Inr m1
        \<and> items m1 (colorID unitNumber (color red)) = Some e1
        \<and> materialId (material e1) = 0
        \<and> (\<exists>m2 e2. saveAll unitNumber m1 [(quad, red, 7), (triangle, glass, 8)] = Inr m2
             \<and> items m2 (colorID unitNumber (color red)) = Some e2
             \<and> material e2 = material e1)
        \<and> (\<exists>m3. saveGeometryByMaterial unitNumber m1 quad red 7 = Inr m3
             \<and> materialCount m3 = materialCount m1))
   \<and> (\<exists>final. saveAll unitNumber (newIfcModel 0)
          [(triangle, red, 7), (quad, red, 7), (triangle, glass, 8)] = Inr final
        \<and> dom (items final) = {''1001'', ''0010.5''})"
proof -
  let ?new = "newIfcModel 0 :: (nat, unit) IfcModel"
  let ?key = "colorID unitNumber (color red)"
  have n: "items ?new ?key = None"
    by (simp add: newIfcModel_def)
  from createMaterial_once
    [where num = unitNumber and model = ?new and placedGeom = red and geom = triangle
       and elementId = 7] n
  obtain m1 e1 where m1: "saveGeometryByMaterial unitNumber ?new triangle red 7 = Inr m1"
    and e1: "items m1 ?key = Some e1"
    and i1: "materialId (material e1) = materialCount ?new"
    by blast
  from createMaterial_once
    [where num = unitNumber and model = m1 and k = ?key and entry = e1
       and fragments = "[(quad, red, 7), (triangle, glass, 8)]"] e1
  obtain m2 e2 where "saveAll unitNumber m1 [(quad, red, 7), (triangle, glass, 8)] = Inr m2"
    and "items m2 ?key = Some e2" and "material e2 = material e1"
    by blast
  moreover from createMaterial_once
    [where num = unitNumber and model = m1 and entry = e1 and placedGeom = red and geom = quad
       and elementId = 7] e1
  obtain m3 where "saveGeometryByMaterial unitNumber m1 quad red 7 = Inr m3"
    and "materialCount m3 = materialCount m1"
    by blast
  moreover from createMaterial_once
    [where num = unitNumber and model = ?new
       and fragments = "[(triangle, red, 7), (quad, red, 7), (triangle, glass, 8)]"]
  obtain final where f: "saveAll unitNumber ?new
          [(triangle, red, 7), (quad, red, 7), (triangle, glass, 8)] = Inr final"
    by blast
  moreover from createMaterial_once
    [where num = unitNumber and created = 0 and final = final
       and fragments = "[(triangle, red, 7), (quad, red, 7), (triangle, glass, 8)]"] f
  have "dom (items final) =
      fragmentKey unitNumber ` set [(triangle, red, 7), (quad, red, 7), (triangle, glass, 8)]"
    by blast
  then have "dom (items final) = {''1001'', ''0010.5''}"
    by (simp add: fragmentKey_def colorID_def unitNumber_def red_def glass_def)
  moreover have "materialId (material e1) = 0"
    using i1 by (simp add: newIfcModel_def)
  ultimately show ?thesis
    using n m1 e1 by blast
qed

theorem saveGeometryByMaterial_merge_witness:
  "colorID unitNumber (color red) = colorID unitNumber (color red)
   \<and> (case items (newIfcModel 0 :: (nat, unit) IfcModel) (colorID unitNumber (color red)) of
         None \<Rightarrow> True
       | Some entry \<Rightarrow> geometries entry 7 = None)
   \<and> (\<exists>model1 model2 entry g.
         saveGeometryByMaterial unitNumber (newIfcModel 0) triangle red 7 = Inr model1
       \<and> saveGeometryByMaterial unitNumber model1 quad red 7 = Inr model2
       \<and> items model2 (colorID unitNumber (color red)) = Some entry
       \<and> geometries entry 7 = Some g
       \<and> length (position g) = 7)"
proof -
  have h: "case items (newIfcModel 0 :: (nat, unit) IfcModel) (colorID unitNumber (color red)) of
             None \<Rightarrow> True
           | Some entry \<Rightarrow> geometries entry 7 = None"
    by (simp add: newIfcModel_def)
  have l: "length (position triangle) + length (position quad) = 7"
    by (simp add: triangle_def quad_def)
  from saveGeometryByMaterial_merge [OF refl h, of triangle quad] l h
  show ?thesis by auto
qed

subsection \<open>Trees of acyclic relation data\<close>

text \<open>
  When the related ids of every chunk have a smaller rank than the relating id, and a node
  can be made for each of them, the tree builder returns, given a call stack deeper than
  the rank of the root.
\<close>

lemma getSpatialNode_returns:
  assumes rk: "\<And>a cs c. chunks a = Some cs \<Longrightarrow> c \<in> set cs \<Longrightarrow>
                 rank c < rank a \<and> (\<exists>n. newNode st c = Inr n)"
  shows "rank (expressID node) < d \<Longrightarrow> \<exists>t. getSpatialNode d st chunks incl node = Inr t"
proof (induction d arbitrary: node)
  case 0
  then show ?case by simp
next
  case (Suc d)
  let ?f = "\<lambda>child. case newNode st child of
                       Inl e \<Rightarrow> Inl e
                     | Inr m \<Rightarrow> getSpatialNode d st chunks incl (if incl then m else m)"
  have gc: "\<exists>t. getChildren (getSpatialNode d st chunks incl) st nd chunks p incl = Inr t
              \<and> expressID t = expressID nd"
    if nd: "expressID nd = expressID node" for nd p
  proof (cases "chunks (expressID nd)")
    case None
    then show ?thesis by (simp add: getChildren_def)
  next
    case (Some cs)
    have "\<exists>ns. mapE ?f cs = Inr ns"
    proof (rule mapE_succeeds)
      fix c assume c: "c \<in> set cs"
      from rk [OF Some c] obtain n where r: "rank c < rank (expressID nd)"
        and n: "newNode st c = Inr n"
        by blast
      from newNode_Inr [OF n] have "expressID n = c" by simp
      with r nd Suc.prems have "rank (expressID n) < d" by simp
      from Suc.IH [OF this] show "\<exists>y. ?f c = Inr y" by (simp add: n)
    qed
    then show ?thesis
      by (auto simp: getChildren_def Some)
  qed
  from gc [of node "aggregates (propsNames st)"] obtain t1 where
    t1: "getChildren (getSpatialNode d st chunks incl) st node chunks
           (aggregates (propsNames st)) incl = Inr t1"
    and e1: "expressID t1 = expressID node"
    by auto
  from gc [OF e1, of "spatial (propsNames st)"] t1 show ?case by auto
qed

lemma getSpatialStructure_returns:
  assumes "getSpatialTreeChunks st = Inr chunks"
    and "projectId st = Inr r"
    and "\<And>a cs c. chunks a = Some cs \<Longrightarrow> c \<in> set cs \<Longrightarrow>
           rank c < rank a \<and> (\<exists>n. newNode st c = Inr n)"
    and "rank r < d"
  shows "\<exists>root. getSpatialStructure d st incl = Inr root"
proof -
  have "rank (expressID (newIfcProject r)) < d"
    using assms(4) by (simp add: newIfcProject_def)
  from getSpatialNode_returns [of chunks rank st, OF assms(3) this]
  show ?thesis
    by (simp add: getSpatialStructure_unfold assms(1,2))
qed

end
